theory Spec2Isabelle
  imports Complex_Main "HOL-Library.Word" "HOL-Library.AList"
begin

unbundle bit_operations_syntax

section \<open>Data model (types.ts)\<close>

text \<open>
  \<open>PeerData\<close> is the record stored in the registry. JavaScript numbers that carry
  integers (\<open>upCap\<close>, \<open>rttHint\<close>, chunk indices) are \<open>int\<close>; the timestamp
  \<open>lastSeen\<close> is \<open>Date.now()\<close>, milliseconds since the epoch, a \<open>nat\<close>. An optional
  field is an \<open>option\<close>, \<open>None\<close> standing for \<open>undefined\<close>.
\<close>

record PeerData =
  peerId :: string
  manifestId :: string
  chunkBitfield :: string
  upCap :: int
  region :: "string option"
  rttHint :: "int option"
  version :: "string option"
  lastSeen :: nat
  isComplete :: bool

record PeerScore =
  ps_peerId :: string
  score :: real
  factors :: "(string \<times> real) list"
  hasNeeded :: bool

record PeerInfo =
  pi_peerId :: string
  pi_chunkBitfield :: string
  pi_region :: "string option"
  pi_score :: real

section \<open>Peer scoring (services/peer-scoring.ts)\<close>

subsection \<open>Decoding the hex bitfield\<close>

text \<open>
  \<open>Buffer.from(bitfield, 'hex')\<close> reads the string two characters at a time and stops
  at the first pair that is not two hexadecimal digits; a trailing single character is
  dropped.
\<close>

definition unhex :: "char \<Rightarrow> nat option" where
  "unhex c =
     (let n = (of_char c :: nat)
      in if 48 \<le> n \<and> n \<le> 57 then Some (n - 48)
         else if 97 \<le> n \<and> n \<le> 102 then Some (n - 87)
         else if 65 \<le> n \<and> n \<le> 70 then Some (n - 55)
         else None)"

fun hex_decode :: "string \<Rightarrow> 8 word list" where
  "hex_decode (a # b # rest) =
     (case unhex a of
        None \<Rightarrow> []
      | Some hi \<Rightarrow>
          (case unhex b of
             None \<Rightarrow> []
           | Some lo \<Rightarrow> word_of_nat (16 * hi + lo) # hex_decode rest))"
| "hex_decode [a] = []"
| "hex_decode [] = []"

subsection \<open>hasNeededChunks\<close>

text \<open>
  JavaScript's \<open>%\<close> takes the sign of the dividend; \<open>Math.floor(c / 8)\<close> is the floor
  division \<open>div\<close> of HOL.
\<close>

definition js_rem :: "int \<Rightarrow> int \<Rightarrow> int" where
  "js_rem a b = (if 0 \<le> a then a mod b else - ((- a) mod b))"

text \<open>
  \<open>bytes[byteIndex]\<close> at a negative index is \<open>undefined\<close>, which \<open>&\<close> converts to 0.
  The shift count of \<open>1 << bitIndex\<close> is taken modulo 32, and \<open>&\<close> works on 32-bit
  integers.
\<close>

definition byte_at :: "8 word list \<Rightarrow> int \<Rightarrow> 32 word" where
  "byte_at bytes i = (if 0 \<le> i \<and> i < int (length bytes) then ucast (bytes ! nat i) else 0)"

definition hasBit :: "8 word list \<Rightarrow> int \<Rightarrow> bool" where
  "hasBit bytes chunkIndex =
     (let byteIndex = chunkIndex div 8;
          bitIndex = js_rem chunkIndex 8
      in byte_at bytes byteIndex AND push_bit (nat (bitIndex mod 32)) 1 \<noteq> 0)"

fun chunk_loop :: "8 word list \<Rightarrow> int list \<Rightarrow> bool" where
  "chunk_loop bytes [] = False"
| "chunk_loop bytes (chunkIndex # rest) =
     (if chunkIndex div 8 < int (length bytes)
      then (if hasBit bytes chunkIndex then True else chunk_loop bytes rest)
      else chunk_loop bytes rest)"

definition hasNeededChunks :: "string \<Rightarrow> int list \<Rightarrow> bool" where
  "hasNeededChunks bitfield neededChunks =
     (if bitfield = [] \<or> neededChunks = [] then False
      else chunk_loop (hex_decode bitfield) neededChunks)"

subsection \<open>calculateLatencyScore and scorePeer\<close>

definition calculateLatencyScore :: "int \<Rightarrow> real" where
  "calculateLatencyScore rtt =
     (if rtt < 50 then 30 else if rtt < 100 then 20 else if rtt < 200 then 10 else 5)"

text \<open>JavaScript truthiness of an optional string and of an optional number.\<close>

definition truthy_str :: "string option \<Rightarrow> bool" where
  "truthy_str x = (case x of None \<Rightarrow> False | Some s \<Rightarrow> s \<noteq> [])"

text \<open>\<open>!x\<close> on an optional string: it is absent or empty.\<close>

definition falsy_str :: "string option \<Rightarrow> bool" where
  "falsy_str x = (case x of None \<Rightarrow> True | Some s \<Rightarrow> s = [])"

lemma falsy_str_iff [simp]: "falsy_str x \<longleftrightarrow> \<not> truthy_str x"
  by (simp add: falsy_str_def truthy_str_def split: option.splits)

text \<open>\<open>x || d\<close> on an optional number: \<open>undefined\<close> and \<open>0\<close> are both falsy.\<close>

definition num_or :: "int option \<Rightarrow> int \<Rightarrow> int" where
  "num_or x d = (case x of None \<Rightarrow> d | Some n \<Rightarrow> if n = 0 then d else n)"

definition regionScore :: "PeerData \<Rightarrow> string option \<Rightarrow> real" where
  "regionScore peer requesterRegion =
     (if truthy_str requesterRegion \<and> region peer = requesterRegion then 30
      else if truthy_str (region peer) then 10
      else 0)"

text \<open>
  Scores are JavaScript numbers. For an integer \<open>upCap\<close> the division by 1024 twice and
  the sums of the factors are exact in double precision, so the score is the real number
  computed here.
\<close>

definition capacityScore :: "PeerData \<Rightarrow> real" where
  "capacityScore peer = min (real_of_int (num_or (Some (upCap peer)) 0) / 1024 / 1024) 20"

definition scorePeer :: "PeerData \<Rightarrow> int list \<Rightarrow> string option \<Rightarrow> PeerScore" where
  "scorePeer peer neededChunks requesterRegion =
     (let hasNeeded = hasNeededChunks (chunkBitfield peer) neededChunks;
          neededScore = (if hasNeeded then 100 else 0);
          score = 0 + neededScore;
          factors = [(''hasNeeded'', neededScore)];
          regionScore = regionScore peer requesterRegion;
          score = score + regionScore;
          factors = factors @ [(''region'', regionScore)];
          latencyScore = calculateLatencyScore (num_or (rttHint peer) 999);
          score = score + latencyScore;
          factors = factors @ [(''latency'', latencyScore)];
          capacityScore = capacityScore peer;
          score = score + capacityScore;
          factors = factors @ [(''capacity'', capacityScore)];
          completionScore = (if isComplete peer then 20 else 0);
          score = score + completionScore;
          factors = factors @ [(''completion'', completionScore)]
      in \<lparr> ps_peerId = peerId peer, score = score, factors = factors,
           hasNeeded = hasNeeded \<rparr>)"

section \<open>The store (redis.ts)\<close>

subsection \<open>Keys\<close>

text \<open>
  Keys are built by string interpolation. \<open>show_nat\<close> is the rendering of a reading of
  \<open>Date.now()\<close> inside a template literal: its decimal digits, a reading being a
  non-negative integer below \<open>2 ^ 53\<close>.
\<close>

definition digit_char :: "nat \<Rightarrow> char" where
  "digit_char d = ''0123456789'' ! d"

function show_nat :: "nat \<Rightarrow> string" where
  "show_nat n = (if n < 10 then [digit_char n] else show_nat (n div 10) @ [digit_char (n mod 10)])"
  by pat_completeness auto
termination
  by (relation "measure (\<lambda>n. n)") auto

declare show_nat.simps [simp del]

definition PEER_KEY :: "string \<Rightarrow> string \<Rightarrow> string" where
  "PEER_KEY mid pid = ''peer:'' @ mid @ '':'' @ pid"

definition PEERS_SET_KEY :: "string \<Rightarrow> string" where
  "PEERS_SET_KEY mid = ''peers:'' @ mid"

subsection \<open>Values with expiry\<close>

text \<open>
  The three families of keys (\<open>peer:\<close>, \<open>peers:\<close>, \<open>signal:\<close>) differ within their
  first five characters, so the keyspace is three tables: serialised peer records, the
  membership sets, and serialised signal messages. A table is an association list from
  the key to the value and its expiry, an absolute time in seconds of the store's
  clock (\<open>None\<close>: no expiry). Expiry is lazy: an entry past its expiry is not seen by
  any command. The commands work in whole seconds, the unit of SETEX, EXPIRE and TTL.
\<close>

type_synonym 'v table = "(string \<times> 'v \<times> nat option) list"

definition live :: "nat \<Rightarrow> nat option \<Rightarrow> bool" where
  "live now e = (case e of None \<Rightarrow> True | Some t \<Rightarrow> now < t)"

definition r_lookup :: "nat \<Rightarrow> 'v table \<Rightarrow> string \<Rightarrow> ('v \<times> nat option) option" where
  "r_lookup now tb k =
     (case map_of tb k of
        None \<Rightarrow> None
      | Some (v, e) \<Rightarrow> if live now e then Some (v, e) else None)"

text \<open>GET, SETEX, DEL.\<close>

definition r_get :: "nat \<Rightarrow> 'v table \<Rightarrow> string \<Rightarrow> 'v option" where
  "r_get now tb k = map_option fst (r_lookup now tb k)"

definition r_setex :: "nat \<Rightarrow> 'v table \<Rightarrow> string \<Rightarrow> nat \<Rightarrow> 'v \<Rightarrow> 'v table" where
  "r_setex now tb k ttl v = AList.update k (v, Some (now + ttl)) tb"

definition r_del :: "'v table \<Rightarrow> string \<Rightarrow> 'v table" where
  "r_del tb k = AList.delete k tb"

text \<open>TTL: -2 for a key that does not exist, -1 for one without expiry.\<close>

definition r_ttl :: "nat \<Rightarrow> 'v table \<Rightarrow> string \<Rightarrow> int" where
  "r_ttl now tb k =
     (case r_lookup now tb k of
        None \<Rightarrow> - 2
      | Some (v, None) \<Rightarrow> - 1
      | Some (v, Some t) \<Rightarrow> int t - int now)"

definition r_expire :: "nat \<Rightarrow> 'v table \<Rightarrow> string \<Rightarrow> nat \<Rightarrow> 'v table" where
  "r_expire now tb k ttl =
     (case r_lookup now tb k of
        None \<Rightarrow> tb
      | Some (v, e) \<Rightarrow> AList.update k (v, Some (now + ttl)) tb)"

text \<open>
  SADD creates the set, without expiry, when the key does not exist; SREM deletes the
  key when the last member goes. Members are kept in the order they were added.
\<close>

definition r_sadd :: "nat \<Rightarrow> string list table \<Rightarrow> string \<Rightarrow> string \<Rightarrow> string list table" where
  "r_sadd now tb k m =
     (case r_lookup now tb k of
        None \<Rightarrow> AList.update k ([m], None) tb
      | Some (ms, e) \<Rightarrow> if m \<in> set ms then tb else AList.update k (ms @ [m], e) tb)"

definition r_smembers :: "nat \<Rightarrow> string list table \<Rightarrow> string \<Rightarrow> string list" where
  "r_smembers now tb k = (case r_lookup now tb k of None \<Rightarrow> [] | Some (ms, e) \<Rightarrow> ms)"

definition r_srem :: "nat \<Rightarrow> string list table \<Rightarrow> string \<Rightarrow> string \<Rightarrow> string list table" where
  "r_srem now tb k m =
     (case r_lookup now tb k of
        None \<Rightarrow> tb
      | Some (ms, e) \<Rightarrow>
          (let ms' = removeAll m ms
           in if ms' = [] then AList.delete k tb else AList.update k (ms', e) tb))"

subsection \<open>KEYS and its glob patterns\<close>

text \<open>
  KEYS lists the keys that match a glob pattern: \<open>*\<close> matches any run of characters,
  \<open>?\<close> one character, \<open>[...]\<close> one character of a class (\<open>^\<close> negates, \<open>a-z\<close> is a
  range, a backslash quotes), a backslash quotes the next character, anything else
  matches itself. \<open>glob_class\<close> reads a class after its opening bracket for the
  character \<open>c\<close> and returns whether \<open>c\<close> is listed and the pattern after the class;
  a class that is not closed runs to the end of the pattern. (On the empty key the
  store's matcher accepts the empty pattern only; no pattern used here matches the empty
  key under either reading.)
\<close>

definition in_range :: "char \<Rightarrow> char \<Rightarrow> char \<Rightarrow> bool" where
  "in_range lo hi c =
     (let a = (of_char lo :: nat); b = (of_char hi :: nat); x = (of_char c :: nat)
      in min a b \<le> x \<and> x \<le> max a b)"

fun glob_class :: "string \<Rightarrow> char \<Rightarrow> bool \<times> string" where
  "glob_class [] c = (False, [])"
| "glob_class [x] c =
     (if x = CHR '']'' then (False, []) else (x = c, []))"
| "glob_class (x # y # zs) c =
     (if x = CHR 0x5C then (let (m, r) = glob_class zs c in (y = c \<or> m, r))
      else if x = CHR '']'' then (False, y # zs)
      else if y = CHR ''-'' \<and> zs \<noteq> []
        then (let (m, r) = glob_class (tl zs) c in (in_range x (hd zs) c \<or> m, r))
      else (let (m, r) = glob_class (y # zs) c in (x = c \<or> m, r)))"

lemma length_glob_class: "length (snd (glob_class p c)) \<le> length p"
proof (induction p c rule: glob_class.induct)
  case (3 x y zs c)
  consider (esc) "x = CHR 0x5C"
    | (close) "x \<noteq> CHR 0x5C" "x = CHR '']''"
    | (range) "x \<noteq> CHR 0x5C" "x \<noteq> CHR '']''" "y = CHR ''-'' \<and> zs \<noteq> []"
    | (plain) "x \<noteq> CHR 0x5C" "x \<noteq> CHR '']''" "\<not> (y = CHR ''-'' \<and> zs \<noteq> [])"
    by blast
  then show ?case
  proof cases
    case esc
    with 3(1) have "length (snd (glob_class zs c)) \<le> length zs" by simp
    with esc show ?thesis by (simp add: split_beta)
  next
    case close
    then show ?thesis by simp
  next
    case range
    with 3(2) have "length (snd (glob_class (tl zs) c)) \<le> length (tl zs)" by simp
    with range show ?thesis by (simp add: split_beta)
  next
    case plain
    with 3(3) have "length (snd (glob_class (y # zs) c)) \<le> length (y # zs)" by simp
    with plain show ?thesis by (auto simp: split_beta)
  qed
qed simp_all

lemma length_glob_class_less:
  "length (snd (glob_class p c)) < Suc (Suc (length p))"
  "length (snd (glob_class (tl p) c)) < Suc (Suc (length p))"
  using length_glob_class [of p c] length_glob_class [of "tl p" c] by simp_all

function glob :: "string \<Rightarrow> string \<Rightarrow> bool" where
  "glob [] s = (s = [])"
| "glob (x # p) [] = (x = CHR ''*'' \<and> glob p [])"
| "glob (x # p) (c # s) =
     (if x = CHR ''*'' then glob p (c # s) \<or> glob (x # p) s
      else if x = CHR ''?'' then glob p s
      else if x = CHR ''[''
        then (if p \<noteq> [] \<and> hd p = CHR ''^''
              then \<not> fst (glob_class (tl p) c) \<and> glob (snd (glob_class (tl p) c)) s
              else fst (glob_class p c) \<and> glob (snd (glob_class p c)) s)
      else if x = CHR 0x5C \<and> p \<noteq> [] then hd p = c \<and> glob (tl p) s
      else x = c \<and> glob p s)"
  by pat_completeness auto
termination
  by (relation "measure (\<lambda>(p, s). length p + length s)")
    (auto simp: length_glob_class_less)

declare glob.simps [simp del]

definition r_keys :: "nat \<Rightarrow> 'v table \<Rightarrow> string \<Rightarrow> string list" where
  "r_keys now tb pattern =
     filter (\<lambda>k. r_lookup now tb k \<noteq> None \<and> glob pattern k) (remdups (map fst tb))"

section \<open>The routes (routes/signaling.ts)\<close>

subsection \<open>Requests, responses, configuration\<close>

text \<open>
  A field of a request body may be absent (\<open>None\<close>). \<open>str_val\<close> reads the string of
  a field that passed the test \<open>!x\<close>.
\<close>

definition str_val :: "string option \<Rightarrow> string" where
  "str_val x = (case x of None \<Rightarrow> [] | Some v \<Rightarrow> v)"

record AnnounceRequest =
  ar_clientId :: "string option"
  ar_manifestId :: "string option"
  ar_chunkBitfield :: "string option"
  ar_upCap :: "int option"
  ar_region :: "string option"
  ar_rttHint :: "int option"
  ar_version :: "string option"

record AnnounceResponse =
  an_success :: bool
  an_peerId :: string
  an_ttl :: nat

record GetPeersRequest =
  gp_manifestId :: "string option"
  gp_neededChunks :: "int list option"
  gp_region :: "string option"
  gp_excludePeers :: "string list option"

record GetPeersResponse =
  peers :: "PeerInfo list"
  count :: nat

record CompleteRequest =
  cr_clientId :: "string option"
  cr_manifestId :: "string option"

text \<open>
  A numeric id is a JavaScript number, a double. Inside a template literal the runtime
  renders it to a text that is the decimal digits of the number only while its magnitude
  is below \<open>2 ^ 53\<close>; beyond, digits are rounded, and from \<open>1e21\<close> the text is in
  exponent form. The rendering is not recomputed here: a numeric id comes as the number
  together with the text the runtime renders it to.
\<close>

record js_number =
  num_value :: int
  num_text :: string

text \<open>The authenticated user of a request (\<open>AuthRequest.user\<close>), from the token.\<close>

record user =
  userId :: js_number
  username :: string

text \<open>
  The sender of a signal, \<open>req.user?.userId || req.user?.username || 'unknown'\<close>, is a
  number or a string; \<open>sender_str\<close> is its rendering inside the key.
\<close>

datatype sender = SenderId js_number | SenderName string

definition sender_of :: "user option \<Rightarrow> sender" where
  "sender_of u =
     (case u of
        None \<Rightarrow> SenderName ''unknown''
      | Some usr \<Rightarrow>
          if num_value (userId usr) \<noteq> 0 then SenderId (userId usr)
          else if username usr \<noteq> [] then SenderName (username usr)
          else SenderName ''unknown'')"

definition sender_str :: "sender \<Rightarrow> string" where
  "sender_str f = (case f of SenderId n \<Rightarrow> num_text n | SenderName v \<Rightarrow> v)"

record SignalRequest =
  sr_type :: "string option"
  sr_to :: "string option"
  sr_data :: "string option"

record SignalMessage =
  sig_type :: string
  sig_from :: sender
  sig_to :: string
  sig_data :: "string option"
  sig_timestamp :: nat

text \<open>
  The outcome of a route: the JSON body of a 200 response, or the status 400
  (\<open>InvalidRequest\<close>), 404 (\<open>NotFound\<close>) or 500 (\<open>InternalError\<close>).
\<close>

datatype 'a response = Ok 'a | InvalidRequest | NotFound | InternalError

text \<open>\<open>PEER_TTL\<close> (default 300) and \<open>MAX_PEERS_RESPONSE\<close> (default 6), from the environment.\<close>

record config =
  PEER_TTL :: nat
  MAX_PEERS_RESPONSE :: nat

definition default_config :: config where
  "default_config = \<lparr> PEER_TTL = 300, MAX_PEERS_RESPONSE = 6 \<rparr>"

record store =
  peer_tb :: "PeerData table"
  set_tb :: "string list table"
  signal_tb :: "SignalMessage table"

definition empty_store :: store where
  "empty_store = \<lparr> peer_tb = [], set_tb = [], signal_tb = [] \<rparr>"

text \<open>
  Every route takes the time of the store's clock in seconds (\<open>now\<close>) and the readings
  of \<open>Date.now()\<close> in milliseconds it makes, and returns the response and the store.
\<close>

subsection \<open>POST /announce\<close>

text \<open>SETEX refuses an expiry of 0; the route answers 500 and has written nothing.\<close>

definition announce ::
  "config \<Rightarrow> nat \<Rightarrow> nat \<Rightarrow> AnnounceRequest \<Rightarrow> store \<Rightarrow> AnnounceResponse response \<times> store" where
  "announce cfg now ms req s =
     (if falsy_str (ar_clientId req) \<or> falsy_str (ar_manifestId req)
         \<or> falsy_str (ar_chunkBitfield req)
      then (InvalidRequest, s)
      else
        let pid = str_val (ar_clientId req);
            mid = str_val (ar_manifestId req);
            peerKey = PEER_KEY mid pid;
            peersSetKey = PEERS_SET_KEY mid;
            peerData = \<lparr> peerId = pid, manifestId = mid,
              chunkBitfield = str_val (ar_chunkBitfield req),
              upCap = num_or (ar_upCap req) 0,
              region = ar_region req, rttHint = ar_rttHint req, version = ar_version req,
              lastSeen = ms, isComplete = False \<rparr>
        in if PEER_TTL cfg = 0 then (InternalError, s)
           else
             let s1 = s\<lparr>peer_tb := r_setex now (peer_tb s) peerKey (PEER_TTL cfg) peerData\<rparr>;
                 s2 = s1\<lparr>set_tb := r_sadd now (set_tb s1) peersSetKey pid\<rparr>;
                 currentTTL = r_ttl now (set_tb s2) peersSetKey;
                 newTTL = PEER_TTL cfg;
                 s3 = (if currentTTL = - 1 \<or> currentTTL < int newTTL
                       then s2\<lparr>set_tb := r_expire now (set_tb s2) peersSetKey newTTL\<rparr>
                       else s2)
             in (Ok \<lparr> an_success = True, an_peerId = pid, an_ttl = PEER_TTL cfg \<rparr>, s3))"

subsection \<open>POST /peers\<close>

text \<open>
  The records of the candidates are fetched one by one; a member whose record is gone is
  removed from the membership set and left out. (The route starts the fetches together:
  they read the peer table and remove from the set, so their order does not show.)
\<close>

fun fetch_peers :: "nat \<Rightarrow> string \<Rightarrow> string list \<Rightarrow> store \<Rightarrow> PeerData list \<times> store" where
  "fetch_peers now mid [] s = ([], s)"
| "fetch_peers now mid (pid # rest) s =
     (case r_get now (peer_tb s) (PEER_KEY mid pid) of
        Some d \<Rightarrow> (let (ds, s') = fetch_peers now mid rest s in (d # ds, s'))
      | None \<Rightarrow>
          fetch_peers now mid rest
            (s\<lparr>set_tb := r_srem now (set_tb s) (PEERS_SET_KEY mid) pid\<rparr>))"

text \<open>
  \<open>scores.sort((a, b) => b.score - a.score)\<close> is a stable sort by descending score:
  the stable insertion sort on the key \<open>- score\<close>.
\<close>

definition sortPeersByScore :: "PeerScore list \<Rightarrow> PeerScore list" where
  "sortPeersByScore scores = sort_key (\<lambda>sc. - score sc) scores"

text \<open>
  A scored entry is projected back onto the first fetched record with its \<open>peerId\<close>;
  were there none, reading a field of \<open>undefined\<close> would throw and the route answer 500.
\<close>

definition project :: "PeerData list \<Rightarrow> PeerScore \<Rightarrow> PeerInfo option" where
  "project peersData scored =
     (case find (\<lambda>p. peerId p = ps_peerId scored) peersData of
        None \<Rightarrow> None
      | Some peer \<Rightarrow>
          Some \<lparr> pi_peerId = peerId peer, pi_chunkBitfield = chunkBitfield peer,
                 pi_region = region peer, pi_score = score scored \<rparr>)"

definition get_peers ::
  "config \<Rightarrow> nat \<Rightarrow> GetPeersRequest \<Rightarrow> store \<Rightarrow> GetPeersResponse response \<times> store" where
  "get_peers cfg now req s =
     (let neededChunks = (case gp_neededChunks req of None \<Rightarrow> [] | Some n \<Rightarrow> n);
          excludePeers = (case gp_excludePeers req of None \<Rightarrow> [] | Some ex \<Rightarrow> ex)
      in if falsy_str (gp_manifestId req) \<or> gp_neededChunks req = None
         then (InvalidRequest, s)
         else
           let mid = str_val (gp_manifestId req);
               peersSetKey = PEERS_SET_KEY mid;
               peerIds = r_smembers now (set_tb s) peersSetKey
           in if peerIds = [] then (Ok \<lparr> peers = [], count = 0 \<rparr>, s)
              else
                let (peersData, s') =
                      fetch_peers now mid (filter (\<lambda>pid. pid \<notin> set excludePeers) peerIds) s;
                    scores = map (\<lambda>peer. scorePeer peer neededChunks (gp_region req)) peersData;
                    sortedScores = sortPeersByScore scores;
                    topPeers = take (MAX_PEERS_RESPONSE cfg) sortedScores
                in (case those (map (project peersData) topPeers) of
                      None \<Rightarrow> (InternalError, s')
                    | Some ps \<Rightarrow> (Ok \<lparr> peers = ps, count = length ps \<rparr>, s')))"

subsection \<open>POST /complete\<close>

definition complete ::
  "config \<Rightarrow> nat \<Rightarrow> nat \<Rightarrow> CompleteRequest \<Rightarrow> store \<Rightarrow> unit response \<times> store" where
  "complete cfg now ms req s =
     (if falsy_str (cr_clientId req) \<or> falsy_str (cr_manifestId req)
      then (InvalidRequest, s)
      else
        let pid = str_val (cr_clientId req);
            peerKey = PEER_KEY (str_val (cr_manifestId req)) pid
        in case r_get now (peer_tb s) peerKey of
             None \<Rightarrow> (NotFound, s)
           | Some peerData \<Rightarrow>
               if PEER_TTL cfg = 0 then (InternalError, s)
               else (Ok (),
                     s\<lparr>peer_tb := r_setex now (peer_tb s) peerKey (PEER_TTL cfg)
                          (peerData\<lparr>isComplete := True, lastSeen := ms\<rparr>)\<rparr>))"

subsection \<open>POST /signal\<close>

definition signal_key :: "string \<Rightarrow> sender \<Rightarrow> nat \<Rightarrow> string" where
  "signal_key to from t = ''signal:'' @ to @ '':'' @ sender_str from @ '':'' @ show_nat t"

text \<open>
  \<open>Date.now()\<close> is read twice, for the key (\<open>ms_key\<close>) and for the \<open>timestamp\<close> field
  (\<open>ms_stamp\<close>).
\<close>

definition signal ::
  "nat \<Rightarrow> nat \<Rightarrow> nat \<Rightarrow> user option \<Rightarrow> SignalRequest \<Rightarrow> store \<Rightarrow> unit response \<times> store" where
  "signal now ms_key ms_stamp usr req s =
     (let from = sender_of usr
      in if falsy_str (sr_type req) \<or> falsy_str (sr_to req) then (InvalidRequest, s)
         else if str_val (sr_type req) \<notin> set [''offer'', ''answer'', ''ice-candidate'']
         then (InvalidRequest, s)
         else
           let to = str_val (sr_to req);
               signalKey = signal_key to from ms_key;
               msg = \<lparr> sig_type = str_val (sr_type req), sig_from = from, sig_to = to,
                       sig_data = sr_data req, sig_timestamp = ms_stamp \<rparr>
           in (Ok (), s\<lparr>signal_tb := r_setex now (signal_tb s) signalKey 30 msg\<rparr>))"

subsection \<open>GET /signals/:clientId\<close>

fun drain :: "nat \<Rightarrow> string list \<Rightarrow> SignalMessage table \<Rightarrow> SignalMessage list \<times> SignalMessage table" where
  "drain now [] tb = ([], tb)"
| "drain now (key # rest) tb =
     (case r_get now tb key of
        None \<Rightarrow> drain now rest tb
      | Some signalData \<Rightarrow>
          (let (signals, tb') = drain now rest (r_del tb key) in (signalData # signals, tb')))"

definition signal_pattern :: "string \<Rightarrow> string" where
  "signal_pattern clientId = ''signal:'' @ clientId @ '':*''"

definition poll_signals ::
  "nat \<Rightarrow> string \<Rightarrow> store \<Rightarrow> SignalMessage list response \<times> store" where
  "poll_signals now clientId s =
     (if clientId = [] then (InvalidRequest, s)
      else
        let pattern = signal_pattern clientId;
            keys = r_keys now (signal_tb s) pattern;
            (signals, tb') = drain now keys (signal_tb s)
        in (Ok signals, s\<lparr>signal_tb := tb'\<rparr>))"

section \<open>Notions used in the statements\<close>

text \<open>
  The requests that pass the validation of \<open>signal\<close>, and the message it stores for one.
\<close>

definition valid_signal :: "SignalRequest \<Rightarrow> bool" where
  "valid_signal req =
     (truthy_str (sr_type req) \<and> truthy_str (sr_to req)
      \<and> str_val (sr_type req) \<in> set [''offer'', ''answer'', ''ice-candidate''])"

definition signal_msg :: "nat \<Rightarrow> user option \<Rightarrow> SignalRequest \<Rightarrow> SignalMessage" where
  "signal_msg ms_stamp usr req =
     \<lparr> sig_type = str_val (sr_type req), sig_from = sender_of usr, sig_to = str_val (sr_to req),
       sig_data = sr_data req, sig_timestamp = ms_stamp \<rparr>"

text \<open>Reading a decimal rendering back.\<close>

definition parse_nat :: "string \<Rightarrow> nat" where
  "parse_nat ds = foldl (\<lambda>a c. 10 * a + (of_char c - 48)) 0 ds"

text \<open>The strings without a character that is special in a glob pattern.\<close>

definition glob_free :: "string \<Rightarrow> bool" where
  "glob_free q = list_all (\<lambda>c. c \<notin> set [CHR ''*'', CHR ''?'', CHR ''['', CHR 0x5C]) q"

text \<open>The records under the keys of a manifest carry the member id they are stored under.\<close>

definition records_match_keys :: "nat \<Rightarrow> string \<Rightarrow> store \<Rightarrow> bool" where
  "records_match_keys now mid s =
     (\<forall>pid d. r_get now (peer_tb s) (PEER_KEY mid pid) = Some d \<longrightarrow> peerId d = pid)"

text \<open>The ids without a colon.\<close>

definition colon_free :: "string \<Rightarrow> bool" where
  "colon_free v = (CHR '':'' \<notin> set v)"

text \<open>
  The stores the routes build from the empty store when every accepted announce names a
  manifest without a colon.
\<close>

inductive reachable :: "config \<Rightarrow> store \<Rightarrow> bool" for cfg :: config where
  r_empty: "reachable cfg empty_store"
| r_announce: "reachable cfg s \<Longrightarrow> colon_free (str_val (ar_manifestId areq)) \<Longrightarrow>
     reachable cfg (snd (announce cfg now ms areq s))"
| r_get_peers: "reachable cfg s \<Longrightarrow> reachable cfg (snd (get_peers cfg now greq s))"
| r_complete: "reachable cfg s \<Longrightarrow> reachable cfg (snd (complete cfg now ms creq s))"
| r_signal: "reachable cfg s \<Longrightarrow> reachable cfg (snd (signal now ms_key ms_stamp usr sreq s))"
| r_poll: "reachable cfg s \<Longrightarrow> reachable cfg (snd (poll_signals now clientId s))"

text \<open>Every record sits under the key that its own manifest and peer id make.\<close>

definition keys_name_records :: "store \<Rightarrow> bool" where
  "keys_name_records s =
     (\<forall>k d e. map_of (peer_tb s) k = Some (d, e) \<longrightarrow>
        colon_free (manifestId d) \<and> k = PEER_KEY (manifestId d) (peerId d))"

section \<open>Sample data\<close>

text \<open>A sample peer: chunk 3 held, 2 MiB/s of upload, region \<open>eu\<close>, 10 ms away.\<close>

definition peer0 :: PeerData where
  "peer0 = \<lparr> peerId = ''A'', manifestId = ''M'', chunkBitfield = ''08'', upCap = 2097152,
     region = Some ''eu'', rttHint = Some 10, version = None, lastSeen = 0,
     isComplete = False \<rparr>"

text \<open>
  An announce with a negative upload capacity, and the record it stores at
  \<open>Date.now() = 1000\<close>.
\<close>

definition announce_negative :: AnnounceRequest where
  "announce_negative = \<lparr> ar_clientId = Some ''N'', ar_manifestId = Some ''M'',
     ar_chunkBitfield = Some ''00'', ar_upCap = Some (- 1048576), ar_region = None,
     ar_rttHint = None, ar_version = None \<rparr>"

definition peer_negative :: PeerData where
  "peer_negative = \<lparr> peerId = ''N'', manifestId = ''M'', chunkBitfield = ''00'',
     upCap = - 1048576, region = None, rttHint = None, version = None, lastSeen = 1000,
     isComplete = False \<rparr>"

text \<open>A store holding that peer for manifest \<open>M\<close>, and requests about it.\<close>

definition store1 :: store where
  "store1 = \<lparr> peer_tb = [(''peer:M:A'', peer0, Some 300)],
               set_tb = [(''peers:M'', [''A''], Some 300)], signal_tb = [] \<rparr>"

definition complete_req0 :: CompleteRequest where
  "complete_req0 = \<lparr> cr_clientId = Some ''A'', cr_manifestId = Some ''M'' \<rparr>"

definition announce_req0 :: AnnounceRequest where
  "announce_req0 = \<lparr> ar_clientId = Some ''A'', ar_manifestId = Some ''M'',
     ar_chunkBitfield = Some ''ff'', ar_upCap = Some 1048576, ar_region = None,
     ar_rttHint = Some 20, ar_version = None \<rparr>"

definition peers_of_M :: GetPeersRequest where
  "peers_of_M = \<lparr> gp_manifestId = Some ''M'', gp_neededChunks = Some [3],
     gp_region = Some ''eu'', gp_excludePeers = Some [''Z''] \<rparr>"

text \<open>The store after an announce, after the peer then completes, and after it announces again.\<close>

definition store_announced :: store where
  "store_announced = snd (announce default_config 0 1000 announce_req0 empty_store)"

definition store_completed :: store where
  "store_completed = snd (complete default_config 10 2000 complete_req0 store_announced)"

definition store_reannounced :: store where
  "store_reannounced = snd (announce default_config 20 3000 announce_req0 store_completed)"

text \<open>
  Two announces whose keys coincide (\<open>peer:a:b:c\<close>): peer \<open>c\<close> of manifest \<open>a:b\<close> and
  peer \<open>b:c\<close> of manifest \<open>a\<close>; and a request for the peers of \<open>a:b\<close> that excludes
  \<open>b:c\<close>.
\<close>

definition announce_c :: AnnounceRequest where
  "announce_c = \<lparr> ar_clientId = Some ''c'', ar_manifestId = Some ''a:b'',
     ar_chunkBitfield = Some ''ff'', ar_upCap = None, ar_region = None, ar_rttHint = None,
     ar_version = None \<rparr>"

definition announce_bc :: AnnounceRequest where
  "announce_bc = \<lparr> ar_clientId = Some ''b:c'', ar_manifestId = Some ''a'',
     ar_chunkBitfield = Some ''ff'', ar_upCap = None, ar_region = None, ar_rttHint = None,
     ar_version = None \<rparr>"

definition store_aliased :: store where
  "store_aliased =
     snd (announce default_config 0 1001 announce_bc
            (snd (announce default_config 0 1000 announce_c empty_store)))"

definition peers_excluding_bc :: GetPeersRequest where
  "peers_excluding_bc = \<lparr> gp_manifestId = Some ''a:b'', gp_neededChunks = Some [0],
     gp_region = None, gp_excludePeers = Some [''b:c''] \<rparr>"

text \<open>
  A user named \<open>A\<close> without numeric id, the user with the numeric id 7, and a user
  without numeric id whose name is \<open>7\<close>.
\<close>

definition user_A :: "user option" where
  "user_A = Some \<lparr> userId = \<lparr> num_value = 0, num_text = ''0'' \<rparr>, username = ''A'' \<rparr>"

definition user_id_7 :: "user option" where
  "user_id_7 = Some \<lparr> userId = \<lparr> num_value = 7, num_text = ''7'' \<rparr>, username = ''seven'' \<rparr>"

definition user_named_7 :: "user option" where
  "user_named_7 = Some \<lparr> userId = \<lparr> num_value = 0, num_text = ''0'' \<rparr>, username = ''7'' \<rparr>"

text \<open>
  Signal requests to \<open>B\<close>: an offer, an offer without payload, a request without type,
  two ICE candidates; and an offer for the recipient \<open>[x]\<close>.
\<close>

definition signal_offer_B :: SignalRequest where
  "signal_offer_B = \<lparr> sr_type = Some ''offer'', sr_to = Some ''B'', sr_data = Some ''P'' \<rparr>"

definition signal_no_payload :: SignalRequest where
  "signal_no_payload = \<lparr> sr_type = Some ''offer'', sr_to = Some ''B'', sr_data = None \<rparr>"

definition signal_no_type :: SignalRequest where
  "signal_no_type = \<lparr> sr_type = None, sr_to = Some ''B'', sr_data = Some ''P'' \<rparr>"

definition signal_P1 :: SignalRequest where
  "signal_P1 = \<lparr> sr_type = Some ''ice-candidate'', sr_to = Some ''B'', sr_data = Some ''P1'' \<rparr>"

definition signal_P2 :: SignalRequest where
  "signal_P2 = \<lparr> sr_type = Some ''ice-candidate'', sr_to = Some ''B'', sr_data = Some ''P2'' \<rparr>"

definition signal_to_bracket :: SignalRequest where
  "signal_to_bracket = \<lparr> sr_type = Some ''offer'', sr_to = Some ''[x]'', sr_data = Some ''P'' \<rparr>"

section \<open>Properties of the scorer\<close>

lemma hasBit_iff:
  "hasBit bytes c \<longleftrightarrow>
     0 \<le> c \<and> c div 8 < int (length bytes) \<and> bit (bytes ! nat (c div 8)) (nat (c mod 8))"
proof (cases "0 \<le> c")
  case False
  then have "c div 8 < 0" by simp
  then show ?thesis using False by (simp add: hasBit_def byte_at_def Let_def)
next
  case True
  then have d: "0 \<le> c div 8" by simp
  have m: "0 \<le> c mod 8" "c mod 8 < 8" by simp_all
  then have m32: "(c mod 8) mod 32 = c mod 8" by simp
  have n8: "nat (c mod 8) < 8" using m by simp
  show ?thesis
  proof (cases "c div 8 < int (length bytes)")
    case False
    then show ?thesis using True d by (simp add: hasBit_def byte_at_def Let_def js_rem_def)
  next
    case lt: True
    have "(ucast (bytes ! nat (c div 8)) :: 32 word) AND push_bit (nat (c mod 8)) 1 \<noteq> 0
          \<longleftrightarrow> bit (ucast (bytes ! nat (c div 8)) :: 32 word) (nat (c mod 8))"
      by (simp add: bit_iff_and_push_bit_not_eq_0)
    also have "\<dots> \<longleftrightarrow> bit (bytes ! nat (c div 8)) (nat (c mod 8))"
      using n8 by (simp add: bit_ucast_iff)
    finally show ?thesis
      using True d lt by (simp add: hasBit_def byte_at_def Let_def js_rem_def m32)
  qed
qed

text \<open>
  C1. For a bitfield \<open>b\<close> and a chunk index \<open>c\<close>, \<open>hasNeededChunks b [c]\<close> holds if and
  only if byte \<open>c div 8\<close> of the decoded bitfield exists and has its bit \<open>c mod 8\<close>
  (bit 0 the least significant) set; it is false whenever \<open>c div 8\<close> is at or beyond the
  decoded length.
\<close>

theorem hasNeededChunks_single:
  "(hasNeededChunks b [c] \<longleftrightarrow>
      0 \<le> c \<and> c div 8 < int (length (hex_decode b)) \<and>
      bit (hex_decode b ! nat (c div 8)) (nat (c mod 8)))
   \<and> (int (length (hex_decode b)) \<le> c div 8 \<longrightarrow> \<not> hasNeededChunks b [c])"
proof -
  have "hasNeededChunks b [c] \<longleftrightarrow>
      0 \<le> c \<and> c div 8 < int (length (hex_decode b)) \<and>
      bit (hex_decode b ! nat (c div 8)) (nat (c mod 8))"
  proof (cases "b = []")
    case True
    have "0 \<le> c \<Longrightarrow> 0 \<le> c div 8" by simp
    with True show ?thesis by (auto simp: hasNeededChunks_def)
  next
    case False
    then show ?thesis by (auto simp: hasNeededChunks_def hasBit_iff)
  qed
  then show ?thesis by auto
qed

theorem hasNeededChunks_single_witness:
  "int (length (hex_decode ''08'')) \<le> 11 div 8 \<and> \<not> hasNeededChunks ''08'' [11]
   \<and> hasNeededChunks ''08'' [3]"
  using hasNeededChunks_single [of "''08''" 11] hasNeededChunks_single [of "''08''" 3]
  by (simp add: unhex_def)

subsection \<open>The five factors\<close>

lemma calculateLatencyScore_antimono:
  "r1 \<le> r2 \<Longrightarrow> calculateLatencyScore r2 \<le> calculateLatencyScore r1"
  by (simp add: calculateLatencyScore_def)

lemma calculateLatencyScore_range:
  "5 \<le> calculateLatencyScore r \<and> calculateLatencyScore r \<le> 30"
  by (simp add: calculateLatencyScore_def)

lemma regionScore_range: "0 \<le> regionScore p r \<and> regionScore p r \<le> 30"
  by (simp add: regionScore_def)

lemma capacityScore_eq: "capacityScore p = min (real_of_int (upCap p) / 1024 / 1024) 20"
  by (simp add: capacityScore_def num_or_def)

lemma capacityScore_range:
  "capacityScore p \<le> 20" "0 \<le> upCap p \<Longrightarrow> 0 \<le> capacityScore p"
  by (simp_all add: capacityScore_eq)

lemma score_scorePeer:
  "score (scorePeer p n r) =
     (if hasNeededChunks (chunkBitfield p) n then 100 else 0) + regionScore p r
     + calculateLatencyScore (num_or (rttHint p) 999) + capacityScore p
     + (if isComplete p then 20 else 0)"
  by (simp add: scorePeer_def Let_def)

lemma factors_scorePeer:
  "factors (scorePeer p n r) =
     [(''hasNeeded'', if hasNeededChunks (chunkBitfield p) n then 100 else 0),
      (''region'', regionScore p r),
      (''latency'', calculateLatencyScore (num_or (rttHint p) 999)),
      (''capacity'', capacityScore p),
      (''completion'', if isComplete p then 20 else 0)]"
  by (simp add: scorePeer_def Let_def)

lemma ps_peerId_scorePeer [simp]: "ps_peerId (scorePeer p n r) = peerId p"
  by (simp add: scorePeer_def Let_def)

text \<open>
  For every peer record, needed-chunk list and requester region, the total score is at
  most 200, the breakdown lists exactly the five factors, and the total is their sum;
  for a record whose \<open>upCap\<close> is non-negative the total is at least 5.
\<close>

lemma scorePeer_range_and_sum:
  "score (scorePeer p n r) \<le> 200
   \<and> map fst (factors (scorePeer p n r)) =
       [''hasNeeded'', ''region'', ''latency'', ''capacity'', ''completion'']
   \<and> score (scorePeer p n r) = sum_list (map snd (factors (scorePeer p n r)))
   \<and> (0 \<le> upCap p \<longrightarrow> 5 \<le> score (scorePeer p n r))"
proof -
  note a = regionScore_range [of p r]
    calculateLatencyScore_range [of "num_or (rttHint p) 999"]
    capacityScore_range [of p]
  have "score (scorePeer p n r) \<le> 200" using a by (simp add: score_scorePeer)
  moreover have "5 \<le> score (scorePeer p n r)" if "0 \<le> upCap p"
    using a that by (simp add: score_scorePeer)
  moreover have "score (scorePeer p n r) = sum_list (map snd (factors (scorePeer p n r)))"
    by (simp add: score_scorePeer factors_scorePeer)
  ultimately show ?thesis by (simp add: factors_scorePeer)
qed

lemma scorePeer_range_and_sum_peer0:
  "0 \<le> upCap peer0
   \<and> 5 \<le> score (scorePeer peer0 [3] (Some ''eu''))
   \<and> score (scorePeer peer0 [3] (Some ''eu'')) \<le> 200
   \<and> score (scorePeer peer0 [3] (Some ''eu''))
       = sum_list (map snd (factors (scorePeer peer0 [3] (Some ''eu''))))"
proof -
  have h: "0 \<le> upCap peer0" by (simp add: peer0_def)
  show ?thesis using h scorePeer_range_and_sum [of peer0 "[3]" "Some ''eu''"] by simp
qed

text \<open>
  C10. The capacity factor is clamped from above only, and \<open>announce\<close> stores the
  \<open>upCap\<close> it is sent without looking at its sign. The record stored for an announce
  with \<open>upCap = -1048576\<close> has the capacity factor -1, outside the 0 to 20 points the
  scorer gives the factor, and the total 4, below 5.
\<close>

theorem scorePeer_negative_upCap:
  "r_get 0 (peer_tb (snd (announce default_config 0 1000 announce_negative empty_store)))
     ''peer:M:N'' = Some peer_negative
   \<and> factors (scorePeer peer_negative [0] None)
       = [(''hasNeeded'', 0), (''region'', 0), (''latency'', 5), (''capacity'', - 1),
          (''completion'', 0)]
   \<and> score (scorePeer peer_negative [0] None) = 4
   \<and> score (scorePeer peer_negative [0] None) < 5"
proof -
  have st: "r_get 0 (peer_tb (snd (announce default_config 0 1000 announce_negative empty_store)))
     ''peer:M:N'' = Some peer_negative"
    by (simp add: announce_def Let_def announce_negative_def peer_negative_def truthy_str_def
        str_val_def default_config_def empty_store_def PEER_KEY_def num_or_def r_setex_def
        r_get_def r_lookup_def live_def)
  have nh: "\<not> hasNeededChunks ''00'' [0]"
    by (simp add: hasNeededChunks_def hasBit_iff unhex_def)
  have f: "factors (scorePeer peer_negative [0] None)
       = [(''hasNeeded'', 0), (''region'', 0), (''latency'', 5), (''capacity'', - 1),
          (''completion'', 0)]"
    by (simp add: factors_scorePeer peer_negative_def nh regionScore_def truthy_str_def
        calculateLatencyScore_def num_or_def capacityScore_def)
  have sc: "score (scorePeer peer_negative [0] None) = 4"
    by (simp add: score_scorePeer peer_negative_def nh regionScore_def truthy_str_def
        calculateLatencyScore_def num_or_def capacityScore_def)
  show ?thesis using st f sc by simp
qed

subsection \<open>Monotonicity in rttHint and upCap\<close>

lemma scorePeer_rttHint_antimono:
  assumes "r1 \<le> r2" "r1 \<noteq> 0" "r2 \<noteq> 0"
  shows "score (scorePeer (p\<lparr>rttHint := Some r2\<rparr>) n r)
         \<le> score (scorePeer (p\<lparr>rttHint := Some r1\<rparr>) n r)"
  using assms
  by (simp add: score_scorePeer regionScore_def capacityScore_def num_or_def
      calculateLatencyScore_def)

lemma scorePeer_rttHint_missing:
  "score (scorePeer (p\<lparr>rttHint := None\<rparr>) n r)
   = score (scorePeer (p\<lparr>rttHint := Some 999\<rparr>) n r)"
  by (simp add: score_scorePeer regionScore_def capacityScore_def num_or_def)

lemma scorePeer_upCap_mono:
  assumes "u1 \<le> u2"
  shows "score (scorePeer (p\<lparr>upCap := u1\<rparr>) n r)
         \<le> score (scorePeer (p\<lparr>upCap := u2\<rparr>) n r)"
  using assms
  by (simp add: score_scorePeer regionScore_def capacityScore_eq min_def divide_right_mono)

text \<open>
  C2. The score is monotone non-decreasing in \<open>upCap\<close> (\<open>scorePeer_upCap_mono\<close>) and
  monotone non-increasing in \<open>rttHint\<close> over the non-zero hints
  (\<open>scorePeer_rttHint_antimono\<close>), but \<open>peer.rttHint || 999\<close> reads the hint 0 as
  missing: the same peer scores 137 with a hint of 0 ms and 162 with a hint of 10 ms,
  so the score rises when the round-trip time rises from 0 to 10.
\<close>

theorem scorePeer_rttHint_zero:
  "score (scorePeer (peer0\<lparr>rttHint := Some 0\<rparr>) [3] (Some ''eu'')) = 137
   \<and> score (scorePeer (peer0\<lparr>rttHint := Some 10\<rparr>) [3] (Some ''eu'')) = 162
   \<and> score (scorePeer (peer0\<lparr>rttHint := Some 0\<rparr>) [3] (Some ''eu''))
       < score (scorePeer (peer0\<lparr>rttHint := Some 10\<rparr>) [3] (Some ''eu''))"
  by (simp add: peer0_def score_scorePeer regionScore_def truthy_str_def
      calculateLatencyScore_def num_or_def capacityScore_def hasNeededChunks_def
      hasBit_iff unhex_def)

section \<open>Properties of the store commands\<close>

lemma r_lookup_update:
  "r_lookup now (AList.update k (v, e) tb) k' =
     (if k' = k then (if live now e then Some (v, e) else None) else r_lookup now tb k')"
  by (simp add: r_lookup_def update_conv')

lemma r_lookup_delete:
  "r_lookup now (AList.delete k tb) k' = (if k' = k then None else r_lookup now tb k')"
  by (simp add: r_lookup_def delete_conv')

lemma r_lookup_setex:
  "r_lookup now' (r_setex now tb k ttl v) k' =
     (if k' = k then (if now' < now + ttl then Some (v, Some (now + ttl)) else None)
      else r_lookup now' tb k')"
  by (simp add: r_setex_def r_lookup_update live_def)

lemma r_get_setex:
  "r_get now' (r_setex now tb k ttl v) k' =
     (if k' = k then (if now' < now + ttl then Some v else None) else r_get now' tb k')"
  by (simp add: r_get_def r_lookup_setex)

lemma r_get_del: "r_get now (r_del tb k) k' = (if k' = k then None else r_get now tb k')"
  by (simp add: r_get_def r_del_def r_lookup_delete)

lemma r_lookup_live: "r_lookup now tb k = Some (v, e) \<Longrightarrow> live now e"
  by (auto simp: r_lookup_def split: option.splits if_splits)

lemma r_lookup_sadd_same:
  "r_lookup now (r_sadd now tb k m) k =
     (case r_lookup now tb k of
        None \<Rightarrow> Some ([m], None)
      | Some (ms, e) \<Rightarrow> Some (if m \<in> set ms then ms else ms @ [m], e))"
  by (auto simp: r_sadd_def r_lookup_update live_def dest: r_lookup_live split: option.splits)

lemma r_lookup_expire_same:
  "r_lookup now (r_expire now tb k ttl) k =
     (case r_lookup now tb k of
        None \<Rightarrow> None
      | Some (v, e) \<Rightarrow> if 0 < ttl then Some (v, Some (now + ttl)) else None)"
  by (auto simp: r_expire_def r_lookup_update live_def split: option.splits)


section \<open>Properties of the registry\<close>



text \<open>
  C6. After an accepted announce the remaining time-to-live of the manifest's
  membership set, as TTL reports it (-2 for a set that does not exist, -1 for one
  without expiry), is the maximum of what it was before and the TTL written with the
  peer record: it is never shortened, and never below the record's.
\<close>

theorem announce_set_ttl:
  assumes "truthy_str (ar_clientId req)" "truthy_str (ar_manifestId req)"
    "truthy_str (ar_chunkBitfield req)" "0 < PEER_TTL cfg"
  shows "r_ttl now (set_tb (snd (announce cfg now ms req s))) (PEERS_SET_KEY (str_val (ar_manifestId req)))
         = max (r_ttl now (set_tb s) (PEERS_SET_KEY (str_val (ar_manifestId req)))) (int (PEER_TTL cfg))
       \<and> r_ttl now (peer_tb (snd (announce cfg now ms req s)))
            (PEER_KEY (str_val (ar_manifestId req)) (str_val (ar_clientId req))) = int (PEER_TTL cfg)"
proof -
  have rec: "r_ttl now (peer_tb (snd (announce cfg now ms req s)))
            (PEER_KEY (str_val (ar_manifestId req)) (str_val (ar_clientId req))) = int (PEER_TTL cfg)"
    using assms by (simp add: announce_def Let_def r_ttl_def r_lookup_setex)
  have "r_ttl now (set_tb (snd (announce cfg now ms req s))) (PEERS_SET_KEY (str_val (ar_manifestId req)))
         = max (r_ttl now (set_tb s) (PEERS_SET_KEY (str_val (ar_manifestId req)))) (int (PEER_TTL cfg))"
  proof -
  let ?k = "PEERS_SET_KEY (str_val (ar_manifestId req))"
  let ?m = "str_val (ar_clientId req)"
  let ?tb2 = "r_sadd now (set_tb s) ?k ?m"
  let ?t2 = "r_ttl now ?tb2 ?k"
  have snd_eq: "set_tb (snd (announce cfg now ms req s)) =
      (if ?t2 = - 1 \<or> ?t2 < int (PEER_TTL cfg) then r_expire now ?tb2 ?k (PEER_TTL cfg) else ?tb2)"
    using assms by (simp add: announce_def Let_def)
  show ?thesis
  proof (cases "r_lookup now (set_tb s) ?k")
    case None
    then have "?t2 = - 1" by (simp add: r_ttl_def r_lookup_sadd_same)
    moreover have "r_ttl now (r_expire now ?tb2 ?k (PEER_TTL cfg)) ?k = int (PEER_TTL cfg)"
      using None assms(4) by (simp add: r_ttl_def r_lookup_expire_same r_lookup_sadd_same)
    moreover have "r_ttl now (set_tb s) ?k = - 2" using None by (simp add: r_ttl_def)
    ultimately show ?thesis by (simp add: snd_eq)
  next
    case (Some a)
    obtain ms0 e where a: "a = (ms0, e)" by (cases a)
    show ?thesis
    proof (cases e)
      case None
      have "?t2 = - 1" using Some a None by (simp add: r_ttl_def r_lookup_sadd_same)
      moreover have "r_ttl now (r_expire now ?tb2 ?k (PEER_TTL cfg)) ?k = int (PEER_TTL cfg)"
        using Some a assms(4) by (simp add: r_ttl_def r_lookup_expire_same r_lookup_sadd_same)
      moreover have "r_ttl now (set_tb s) ?k = - 1" using Some a None by (simp add: r_ttl_def)
      ultimately show ?thesis by (simp add: snd_eq)
    next
      case (Some t)
      have lv: "now < t" using \<open>r_lookup now (set_tb s) ?k = Some a\<close> a Some
        by (auto dest: r_lookup_live simp: live_def)
      have t2: "?t2 = int t - int now"
        using \<open>r_lookup now (set_tb s) ?k = Some a\<close> a Some by (simp add: r_ttl_def r_lookup_sadd_same)
      have t0: "r_ttl now (set_tb s) ?k = int t - int now"
        using \<open>r_lookup now (set_tb s) ?k = Some a\<close> a Some by (simp add: r_ttl_def)
      have ex: "r_ttl now (r_expire now ?tb2 ?k (PEER_TTL cfg)) ?k = int (PEER_TTL cfg)"
        using \<open>r_lookup now (set_tb s) ?k = Some a\<close> a assms(4)
        by (simp add: r_ttl_def r_lookup_expire_same r_lookup_sadd_same)
      show ?thesis using lv t2 t0 ex by (auto simp: snd_eq)
    qed
  qed
qed
  with rec show ?thesis by simp
qed

theorem announce_set_ttl_witness:
  "truthy_str (ar_clientId announce_req0) \<and> truthy_str (ar_manifestId announce_req0)
   \<and> truthy_str (ar_chunkBitfield announce_req0) \<and> 0 < PEER_TTL default_config
   \<and> r_ttl 100 (set_tb store1) ''peers:M'' = 200
   \<and> r_ttl 100 (set_tb (snd (announce default_config 100 7000 announce_req0 store1))) ''peers:M'' = 300
   \<and> r_ttl 100 (peer_tb (snd (announce default_config 100 7000 announce_req0 store1))) ''peer:M:A'' = 300"
proof -
  have h: "truthy_str (ar_clientId announce_req0)" "truthy_str (ar_manifestId announce_req0)"
    "truthy_str (ar_chunkBitfield announce_req0)" "0 < PEER_TTL default_config"
    by (simp_all add: announce_req0_def truthy_str_def default_config_def)
  have k: "PEERS_SET_KEY (str_val (ar_manifestId announce_req0)) = ''peers:M''"
    "PEER_KEY (str_val (ar_manifestId announce_req0)) (str_val (ar_clientId announce_req0))
           = ''peer:M:A''"
    by (simp_all add: announce_req0_def PEER_KEY_def PEERS_SET_KEY_def str_val_def)
  have t0: "r_ttl 100 (set_tb store1) ''peers:M'' = 200"
    by (simp add: store1_def r_ttl_def r_lookup_def live_def)
  have t: "PEER_TTL default_config = 300" by (simp add: default_config_def)
  show ?thesis
    using h t0 announce_set_ttl [OF h, of 100 7000 store1]
    by (simp add: k t)
qed

section \<open>Re-announcing\<close>

lemma r_smembers_sadd_member:
  "m \<in> set (r_smembers now tb k) \<Longrightarrow> r_sadd now tb k m = tb"
  by (auto simp: r_smembers_def r_sadd_def split: option.splits)

lemma r_smembers_expire:
  "0 < ttl \<Longrightarrow> r_smembers now (r_expire now tb k ttl) k = r_smembers now tb k"
  by (auto simp: r_smembers_def r_lookup_expire_same split: option.splits)

lemma store_announced_eq:
  "store_announced =
     \<lparr> peer_tb = [(''peer:M:A'',
         \<lparr> peerId = ''A'', manifestId = ''M'', chunkBitfield = ''ff'', upCap = 1048576,
           region = None, rttHint = Some 20, version = None, lastSeen = 1000,
           isComplete = False \<rparr>, Some 300)],
       set_tb = [(''peers:M'', [''A''], Some 300)], signal_tb = [] \<rparr>"
  by (simp add: store_announced_def announce_def Let_def announce_req0_def truthy_str_def
      str_val_def default_config_def empty_store_def PEER_KEY_def PEERS_SET_KEY_def
      r_setex_def r_sadd_def r_lookup_def r_ttl_def r_expire_def num_or_def live_def)

lemma store_completed_eq:
  "store_completed =
     \<lparr> peer_tb = [(''peer:M:A'',
         \<lparr> peerId = ''A'', manifestId = ''M'', chunkBitfield = ''ff'', upCap = 1048576,
           region = None, rttHint = Some 20, version = None, lastSeen = 2000,
           isComplete = True \<rparr>, Some 310)],
       set_tb = [(''peers:M'', [''A''], Some 300)], signal_tb = [] \<rparr>"
  by (simp add: store_completed_def store_announced_eq complete_def Let_def complete_req0_def
      truthy_str_def str_val_def default_config_def PEER_KEY_def r_get_def
      r_setex_def r_lookup_def live_def)

lemma store_reannounced_eq:
  "store_reannounced =
     \<lparr> peer_tb = [(''peer:M:A'',
         \<lparr> peerId = ''A'', manifestId = ''M'', chunkBitfield = ''ff'', upCap = 1048576,
           region = None, rttHint = Some 20, version = None, lastSeen = 3000,
           isComplete = False \<rparr>, Some 320)],
       set_tb = [(''peers:M'', [''A''], Some 320)], signal_tb = [] \<rparr>"
  by (simp add: store_reannounced_def store_completed_eq announce_def Let_def announce_req0_def
      truthy_str_def str_val_def default_config_def PEER_KEY_def PEERS_SET_KEY_def
      r_setex_def r_sadd_def r_lookup_def r_ttl_def r_expire_def num_or_def live_def)

text \<open>
  C4 as stated fails: \<open>announce\<close> writes a fresh record with \<open>isComplete: false\<close>. A peer
  that announces, completes and announces again has lost the flag.
\<close>

theorem reannounce_resets_isComplete:
  "map_option isComplete (r_get 20 (peer_tb store_completed) ''peer:M:A'') = Some True
   \<and> map_option isComplete (r_get 20 (peer_tb store_reannounced) ''peer:M:A'') = Some False"
  by (simp add: store_completed_eq store_reannounced_eq r_get_def r_lookup_def live_def)

lemma r_smembers_sadd:
  "r_smembers now (r_sadd now tb k m) k =
     (if m \<in> set (r_smembers now tb k) then r_smembers now tb k
      else r_smembers now tb k @ [m])"
  by (auto simp: r_smembers_def r_lookup_sadd_same split: option.splits)

text \<open>
  C4, amended. When the key holds a live record, an accepted announce answers with the
  same peerId and replaces the record by one built from the request alone (the fields
  the request leaves out are absent, \<open>upCap\<close> defaults to 0, \<open>lastSeen\<close> is now,
  \<open>isComplete\<close> is false) with a fresh expiry. It adds no duplicate to the membership
  set: the list of members stays as it was when the peer is in it, and gains the peer
  once, at the end, when it is not (the set may have expired before the record).
\<close>

theorem reannounce_overwrites:
  assumes "truthy_str (ar_clientId req)" "truthy_str (ar_manifestId req)"
    "truthy_str (ar_chunkBitfield req)" "0 < PEER_TTL cfg"
    and "r_get now (peer_tb s)
           (PEER_KEY (str_val (ar_manifestId req)) (str_val (ar_clientId req))) = Some d"
  shows "fst (announce cfg now ms req s)
           = Ok \<lparr> an_success = True, an_peerId = str_val (ar_clientId req), an_ttl = PEER_TTL cfg \<rparr>
       \<and> r_lookup now (peer_tb (snd (announce cfg now ms req s)))
            (PEER_KEY (str_val (ar_manifestId req)) (str_val (ar_clientId req)))
          = Some (\<lparr> peerId = str_val (ar_clientId req), manifestId = str_val (ar_manifestId req),
                    chunkBitfield = str_val (ar_chunkBitfield req),
                    upCap = num_or (ar_upCap req) 0, region = ar_region req,
                    rttHint = ar_rttHint req, version = ar_version req,
                    lastSeen = ms, isComplete = False \<rparr>, Some (now + PEER_TTL cfg))
       \<and> r_smembers now (set_tb (snd (announce cfg now ms req s)))
            (PEERS_SET_KEY (str_val (ar_manifestId req)))
          = (if str_val (ar_clientId req)
                  \<in> set (r_smembers now (set_tb s) (PEERS_SET_KEY (str_val (ar_manifestId req))))
             then r_smembers now (set_tb s) (PEERS_SET_KEY (str_val (ar_manifestId req)))
             else r_smembers now (set_tb s) (PEERS_SET_KEY (str_val (ar_manifestId req)))
                    @ [str_val (ar_clientId req)])"
  using assms(1-4)
  by (simp add: announce_def Let_def r_lookup_setex r_smembers_sadd r_smembers_expire)

theorem reannounce_overwrites_witness:
  "truthy_str (ar_clientId announce_req0) \<and> truthy_str (ar_manifestId announce_req0)
   \<and> truthy_str (ar_chunkBitfield announce_req0) \<and> 0 < PEER_TTL default_config
   \<and> map_option isComplete (r_get 20 (peer_tb store_completed) ''peer:M:A'') = Some True
   \<and> r_smembers 20 (set_tb store_completed) ''peers:M'' = [''A'']
   \<and> r_lookup 20 (peer_tb (snd (announce default_config 20 3000 announce_req0 store_completed)))
        ''peer:M:A''
      = Some (\<lparr> peerId = ''A'', manifestId = ''M'', chunkBitfield = ''ff'', upCap = 1048576,
                region = None, rttHint = Some 20, version = None, lastSeen = 3000,
                isComplete = False \<rparr>, Some 320)
   \<and> r_smembers 20 (set_tb (snd (announce default_config 20 3000 announce_req0 store_completed)))
        ''peers:M'' = [''A'']
   \<and> map_option isComplete (r_get 305 (peer_tb store_completed) ''peer:M:A'') = Some True
   \<and> r_smembers 305 (set_tb store_completed) ''peers:M'' = []
   \<and> r_smembers 305 (set_tb (snd (announce default_config 305 9000 announce_req0 store_completed)))
        ''peers:M'' = [''A'']"
proof -
  have h: "truthy_str (ar_clientId announce_req0)" "truthy_str (ar_manifestId announce_req0)"
    "truthy_str (ar_chunkBitfield announce_req0)" "0 < PEER_TTL default_config"
    by (simp_all add: announce_req0_def truthy_str_def default_config_def)
  have v: "str_val (ar_clientId announce_req0) = ''A''"
    "str_val (ar_manifestId announce_req0) = ''M''"
    "str_val (ar_chunkBitfield announce_req0) = ''ff''"
    "num_or (ar_upCap announce_req0) 0 = 1048576" "ar_region announce_req0 = None"
    "ar_rttHint announce_req0 = Some 20" "ar_version announce_req0 = None"
    "PEER_TTL default_config = 300"
    by (simp_all add: announce_req0_def str_val_def num_or_def default_config_def)
  have k: "PEERS_SET_KEY ''M'' = ''peers:M''" "PEER_KEY ''M'' ''A'' = ''peer:M:A''"
    by (simp_all add: PEER_KEY_def PEERS_SET_KEY_def)
  let ?d = "\<lparr> peerId = ''A'', manifestId = ''M'', chunkBitfield = ''ff'', upCap = 1048576,
           region = None, rttHint = Some 20, version = None, lastSeen = 2000,
           isComplete = True \<rparr>"
  have g: "r_get 20 (peer_tb store_completed)
      (PEER_KEY (str_val (ar_manifestId announce_req0)) (str_val (ar_clientId announce_req0))) = Some ?d"
    by (simp add: v k store_completed_eq r_get_def r_lookup_def live_def)
  have g': "r_get 305 (peer_tb store_completed)
      (PEER_KEY (str_val (ar_manifestId announce_req0)) (str_val (ar_clientId announce_req0))) = Some ?d"
    by (simp add: v k store_completed_eq r_get_def r_lookup_def live_def)
  have m: "r_smembers 20 (set_tb store_completed) ''peers:M'' = [''A'']"
    by (simp add: store_completed_eq r_smembers_def r_lookup_def live_def)
  have m': "r_smembers 305 (set_tb store_completed) ''peers:M'' = []"
    by (simp add: store_completed_eq r_smembers_def r_lookup_def live_def)
  show ?thesis
    using h g g' m m' reannounce_overwrites [OF h g, of 3000]
      reannounce_overwrites [OF h g', of 9000]
    by (simp add: v k)
qed

section \<open>Properties of the relay\<close>

lemma show_nat_1000: "show_nat 1000 = ''1000''"
  by (simp add: show_nat.simps digit_char_def)

lemma sender_of_user_A: "sender_of user_A = SenderName ''A''"
  by (simp add: sender_of_def user_A_def)

lemma signal_key_B_A_1000: "signal_key ''B'' (SenderName ''A'') 1000 = ''signal:B:A:1000''"
  by (simp add: signal_key_def sender_str_def show_nat_1000)

text \<open>
  C8 as stated fails: the route never looks at the payload (the body field \<open>data\<close>). A
  request with a valid type and recipient and no payload is accepted and stored.
\<close>

theorem signal_missing_payload_accepted:
  "fst (signal 0 1000 1000 user_A signal_no_payload empty_store) = Ok ()
   \<and> r_get 0 (signal_tb (snd (signal 0 1000 1000 user_A signal_no_payload empty_store)))
        ''signal:B:A:1000''
     = Some \<lparr> sig_type = ''offer'', sig_from = SenderName ''A'', sig_to = ''B'',
              sig_data = None, sig_timestamp = 1000 \<rparr>"
  by (simp add: signal_def Let_def signal_no_payload_def truthy_str_def str_val_def
      r_get_setex sender_of_user_A signal_key_B_A_1000)

text \<open>
  C8, amended. \<open>signal\<close> answers InvalidRequest exactly when \<open>type\<close> or \<open>to\<close> is
  missing or empty or \<open>type\<close> is not one of \<open>offer\<close>, \<open>answer\<close>, \<open>ice-candidate\<close>;
  the store is then unchanged. Every other request, with or without payload, is
  answered with success and stored under its key for 30 seconds.
\<close>

theorem signal_validation:
  "(fst (signal now ms_key ms_stamp usr req s) = InvalidRequest \<longleftrightarrow>
      \<not> truthy_str (sr_type req) \<or> \<not> truthy_str (sr_to req)
      \<or> str_val (sr_type req) \<notin> {''offer'', ''answer'', ''ice-candidate''})
   \<and> (fst (signal now ms_key ms_stamp usr req s) = InvalidRequest \<longrightarrow>
        snd (signal now ms_key ms_stamp usr req s) = s)
   \<and> (fst (signal now ms_key ms_stamp usr req s) \<noteq> InvalidRequest \<longrightarrow>
        fst (signal now ms_key ms_stamp usr req s) = Ok ()
        \<and> r_lookup now (signal_tb (snd (signal now ms_key ms_stamp usr req s)))
             (signal_key (str_val (sr_to req)) (sender_of usr) ms_key)
           = Some (\<lparr> sig_type = str_val (sr_type req), sig_from = sender_of usr,
                     sig_to = str_val (sr_to req), sig_data = sr_data req,
                     sig_timestamp = ms_stamp \<rparr>, Some (now + 30)))"
  by (auto simp: signal_def Let_def r_lookup_setex)

theorem signal_validation_witness:
  "\<not> truthy_str (sr_type signal_no_type)
   \<and> signal 0 1000 1000 user_A signal_no_type empty_store = (InvalidRequest, empty_store)
   \<and> fst (signal 0 1000 1000 user_A signal_no_payload empty_store) \<noteq> InvalidRequest
   \<and> r_lookup 0 (signal_tb (snd (signal 0 1000 1000 user_A signal_no_payload empty_store)))
        ''signal:B:A:1000''
      = Some (\<lparr> sig_type = ''offer'', sig_from = SenderName ''A'', sig_to = ''B'',
                sig_data = None, sig_timestamp = 1000 \<rparr>, Some 30)"
proof -
  have a: "\<not> truthy_str (sr_type signal_no_type)"
    by (simp add: signal_no_type_def truthy_str_def)
  have b: "truthy_str (sr_type signal_no_payload)" "truthy_str (sr_to signal_no_payload)"
    "str_val (sr_type signal_no_payload) \<in> {''offer'', ''answer'', ''ice-candidate''}"
    "str_val (sr_to signal_no_payload) = ''B''" "str_val (sr_type signal_no_payload) = ''offer''"
    "sr_data signal_no_payload = None" "sender_of user_A = SenderName ''A''"
    by (simp_all add: signal_no_payload_def truthy_str_def str_val_def sender_of_def user_A_def)
  note v1 = signal_validation [of 0 1000 1000 user_A signal_no_type empty_store]
  note v2 = signal_validation [of 0 1000 1000 user_A signal_no_payload empty_store]
  have r1: "signal 0 1000 1000 user_A signal_no_type empty_store = (InvalidRequest, empty_store)"
    using v1 a by (simp add: prod_eq_iff)
  have r2: "fst (signal 0 1000 1000 user_A signal_no_payload empty_store) \<noteq> InvalidRequest"
    using v2 b by simp
  show ?thesis
    using a r1 r2 v2 b signal_key_B_A_1000 by simp
qed

section \<open>Keys of the relay\<close>

lemma digit_char_props:
  assumes "d < 10"
  shows "digit_char d \<noteq> CHR '':''" "CHR '':'' \<noteq> digit_char d"
    "(of_char (digit_char d) :: nat) - 48 = d"
proof -
  from assms have "d \<in> {0, 1, 2, 3, 4, 5, 6, 7, 8, 9}" by auto
  then show "digit_char d \<noteq> CHR '':''" "CHR '':'' \<noteq> digit_char d"
    "(of_char (digit_char d) :: nat) - 48 = d"
    by (auto simp: digit_char_def)
qed

lemma show_nat_no_colon: "CHR '':'' \<notin> set (show_nat n)"
proof (induction n rule: show_nat.induct)
  case (1 n)
  show ?case
  proof (cases "n < 10")
    case True
    then show ?thesis by (simp add: show_nat.simps [of n] digit_char_props)
  next
    case False
    then show ?thesis using 1 by (simp add: show_nat.simps [of n] digit_char_props)
  qed
qed

lemma parse_nat_show_nat: "parse_nat (show_nat n) = n"
proof (induction n rule: show_nat.induct)
  case (1 n)
  show ?case
  proof (cases "n < 10")
    case True
    then show ?thesis by (simp add: show_nat.simps [of n] parse_nat_def digit_char_props)
  next
    case False
    then have "parse_nat (show_nat (n div 10)) = n div 10" using 1 by simp
    then show ?thesis
      using False by (simp add: show_nat.simps [of n] parse_nat_def digit_char_props)
  qed
qed

lemma show_nat_inj: "show_nat a = show_nat b \<longleftrightarrow> a = b"
  by (metis parse_nat_show_nat)

lemma split_at_last_colon:
  assumes "CHR '':'' \<notin> set ds" "CHR '':'' \<notin> set es"
    and "xs @ CHR '':'' # ds = ys @ CHR '':'' # es"
  shows "xs = ys \<and> ds = es"
  using assms
proof (induction xs arbitrary: ys)
  case Nil
  then show ?case by (cases ys) auto
next
  case (Cons x xs)
  then show ?case by (cases ys) auto
qed

lemma signal_key_inj:
  "signal_key to f1 t1 = signal_key to f2 t2 \<longleftrightarrow> sender_str f1 = sender_str f2 \<and> t1 = t2"
proof
  assume "signal_key to f1 t1 = signal_key to f2 t2"
  then have "sender_str f1 @ CHR '':'' # show_nat t1 = sender_str f2 @ CHR '':'' # show_nat t2"
    by (simp add: signal_key_def)
  then have "sender_str f1 = sender_str f2 \<and> show_nat t1 = show_nat t2"
    by (rule split_at_last_colon [OF show_nat_no_colon show_nat_no_colon])
  then show "sender_str f1 = sender_str f2 \<and> t1 = t2" by (simp add: show_nat_inj)
next
  assume "sender_str f1 = sender_str f2 \<and> t1 = t2"
  then show "signal_key to f1 t1 = signal_key to f2 t2" by (simp add: signal_key_def)
qed

lemma signal_valid:
  "valid_signal req \<Longrightarrow>
     signal now ms_key ms_stamp usr req s =
       (Ok (), s\<lparr>signal_tb := r_setex now (signal_tb s)
          (signal_key (str_val (sr_to req)) (sender_of usr) ms_key) 30
          (signal_msg ms_stamp usr req)\<rparr>)"
  by (simp add: signal_def valid_signal_def signal_msg_def Let_def)

lemma show_nat_1001: "show_nat 1001 = ''1001''"
  by (simp add: show_nat.simps digit_char_def)

lemma sender_of_sevens:
  "sender_of user_id_7 = SenderId \<lparr> num_value = 7, num_text = ''7'' \<rparr>"
  "sender_of user_named_7 = SenderName ''7''"
  by (simp_all add: sender_of_def user_id_7_def user_named_7_def)

lemma signal_key_B_7_1000:
  "signal_key ''B'' (SenderId \<lparr> num_value = 7, num_text = ''7'' \<rparr>) 1000 = ''signal:B:7:1000''"
  "signal_key ''B'' (SenderName ''7'') 1000 = ''signal:B:7:1000''"
  by (simp_all add: signal_key_def sender_str_def show_nat_1000)

text \<open>
  C7 as stated fails, in both of its cases. Two messages from the same sender to the
  same recipient whose keys are built in the same millisecond share the key, and the
  second replaces the first. And two different senders, the user with the numeric id 7
  and the user without numeric id named \<open>7\<close>, render to the same text in the key: in
  the same millisecond the message of the second replaces the message of the first.
\<close>

theorem signal_same_key_overwrites:
  "signal_tb (snd (signal 0 1000 1000 user_A signal_P2
                     (snd (signal 0 1000 1000 user_A signal_P1 empty_store))))
   = [(''signal:B:A:1000'',
       \<lparr> sig_type = ''ice-candidate'', sig_from = SenderName ''A'', sig_to = ''B'',
         sig_data = Some ''P2'', sig_timestamp = 1000 \<rparr>, Some 30)]
   \<and> sender_of user_id_7 \<noteq> sender_of user_named_7
   \<and> signal_tb (snd (signal 0 1000 1000 user_named_7 signal_P2
                        (snd (signal 0 1000 1000 user_id_7 signal_P1 empty_store))))
     = [(''signal:B:7:1000'',
         \<lparr> sig_type = ''ice-candidate'', sig_from = SenderName ''7'', sig_to = ''B'',
           sig_data = Some ''P2'', sig_timestamp = 1000 \<rparr>, Some 30)]"
  by (simp add: signal_def Let_def signal_P1_def signal_P2_def truthy_str_def str_val_def
      sender_of_user_A signal_key_B_A_1000 sender_of_sevens signal_key_B_7_1000 r_setex_def
      empty_store_def)

text \<open>
  C7, amended. Two accepted signals to the same recipient whose senders render to
  different texts in the key, or whose keys carry different millisecond readings, are
  stored under different keys; while the first is within its 30 seconds, both are
  pending after the second is stored. The text of a numeric sender is the runtime's,
  whatever it is.
\<close>

theorem signals_both_pending:
  assumes "valid_signal req1" "valid_signal req2"
    and "str_val (sr_to req1) = str_val (sr_to req2)"
    and "sender_str (sender_of usr1) \<noteq> sender_str (sender_of usr2) \<or> ms_key1 \<noteq> ms_key2"
    and "now1 \<le> now2" "now2 < now1 + 30"
  shows "signal_key (str_val (sr_to req1)) (sender_of usr1) ms_key1
           \<noteq> signal_key (str_val (sr_to req2)) (sender_of usr2) ms_key2
       \<and> r_get now2
            (signal_tb (snd (signal now2 ms_key2 ms_stamp2 usr2 req2
                               (snd (signal now1 ms_key1 ms_stamp1 usr1 req1 s)))))
            (signal_key (str_val (sr_to req1)) (sender_of usr1) ms_key1)
          = Some (signal_msg ms_stamp1 usr1 req1)
       \<and> r_get now2
            (signal_tb (snd (signal now2 ms_key2 ms_stamp2 usr2 req2
                               (snd (signal now1 ms_key1 ms_stamp1 usr1 req1 s)))))
            (signal_key (str_val (sr_to req2)) (sender_of usr2) ms_key2)
          = Some (signal_msg ms_stamp2 usr2 req2)"
proof -
  have ne: "signal_key (str_val (sr_to req1)) (sender_of usr1) ms_key1
           \<noteq> signal_key (str_val (sr_to req2)) (sender_of usr2) ms_key2"
    using assms(3,4) by (auto simp: signal_key_inj)
  then show ?thesis
    using assms(5,6) by (simp add: signal_valid [OF assms(1)] signal_valid [OF assms(2)] r_get_setex)
qed

theorem signals_both_pending_witness:
  "valid_signal signal_P1 \<and> valid_signal signal_P2
   \<and> str_val (sr_to signal_P1) = str_val (sr_to signal_P2)
   \<and> (1000::nat) \<noteq> 1001 \<and> (0::nat) \<le> 1 \<and> (1::nat) < 0 + 30
   \<and> r_get 1 (signal_tb (snd (signal 1 1001 1001 user_A signal_P2
                                 (snd (signal 0 1000 1000 user_A signal_P1 empty_store)))))
        ''signal:B:A:1000''
      = Some \<lparr> sig_type = ''ice-candidate'', sig_from = SenderName ''A'', sig_to = ''B'',
               sig_data = Some ''P1'', sig_timestamp = 1000 \<rparr>
   \<and> r_get 1 (signal_tb (snd (signal 1 1001 1001 user_A signal_P2
                                 (snd (signal 0 1000 1000 user_A signal_P1 empty_store)))))
        ''signal:B:A:1001''
      = Some \<lparr> sig_type = ''ice-candidate'', sig_from = SenderName ''A'', sig_to = ''B'',
               sig_data = Some ''P2'', sig_timestamp = 1001 \<rparr>
   \<and> sender_str (sender_of user_A) \<noteq> sender_str (sender_of user_id_7)
   \<and> r_get 5 (signal_tb (snd (signal 5 1000 1000 user_id_7 signal_P2
                                 (snd (signal 0 1000 1000 user_A signal_P1 empty_store)))))
        ''signal:B:A:1000''
      = Some \<lparr> sig_type = ''ice-candidate'', sig_from = SenderName ''A'', sig_to = ''B'',
               sig_data = Some ''P1'', sig_timestamp = 1000 \<rparr>
   \<and> r_get 5 (signal_tb (snd (signal 5 1000 1000 user_id_7 signal_P2
                                 (snd (signal 0 1000 1000 user_A signal_P1 empty_store)))))
        ''signal:B:7:1000''
      = Some \<lparr> sig_type = ''ice-candidate'',
               sig_from = SenderId \<lparr> num_value = 7, num_text = ''7'' \<rparr>, sig_to = ''B'',
               sig_data = Some ''P2'', sig_timestamp = 1000 \<rparr>"
proof -
  have v: "valid_signal signal_P1" "valid_signal signal_P2"
    by (simp_all add: valid_signal_def signal_P1_def signal_P2_def truthy_str_def str_val_def)
  have t: "str_val (sr_to signal_P1) = str_val (sr_to signal_P2)"
    by (simp add: signal_P1_def signal_P2_def)
  have d: "sender_str (sender_of user_A) \<noteq> sender_str (sender_of user_A) \<or> (1000::nat) \<noteq> 1001"
    by simp
  have ne: "sender_str (sender_of user_A) \<noteq> sender_str (sender_of user_id_7)"
    by (simp add: sender_of_user_A sender_of_sevens sender_str_def)
  then have d': "sender_str (sender_of user_A) \<noteq> sender_str (sender_of user_id_7)
      \<or> (1000::nat) \<noteq> 1000"
    by simp
  have tm: "(0::nat) \<le> 5" "(5::nat) < 0 + 30" by simp_all
  have sv: "str_val (sr_to signal_P1) = ''B''" "str_val (sr_to signal_P2) = ''B''"
    by (simp_all add: signal_P1_def signal_P2_def str_val_def)
  have k: "signal_key ''B'' (sender_of user_A) 1000 = ''signal:B:A:1000''"
    "signal_key ''B'' (sender_of user_A) 1001 = ''signal:B:A:1001''"
    "signal_key ''B'' (sender_of user_id_7) 1000 = ''signal:B:7:1000''"
    by (simp_all add: signal_key_def sender_of_user_A sender_of_sevens sender_str_def
        show_nat_1000 show_nat_1001)
  have m: "signal_msg 1000 user_A signal_P1
      = \<lparr> sig_type = ''ice-candidate'', sig_from = SenderName ''A'', sig_to = ''B'',
               sig_data = Some ''P1'', sig_timestamp = 1000 \<rparr>"
    "signal_msg 1001 user_A signal_P2
      = \<lparr> sig_type = ''ice-candidate'', sig_from = SenderName ''A'', sig_to = ''B'',
               sig_data = Some ''P2'', sig_timestamp = 1001 \<rparr>"
    "signal_msg 1000 user_id_7 signal_P2
      = \<lparr> sig_type = ''ice-candidate'',
          sig_from = SenderId \<lparr> num_value = 7, num_text = ''7'' \<rparr>, sig_to = ''B'',
          sig_data = Some ''P2'', sig_timestamp = 1000 \<rparr>"
    by (simp_all add: signal_msg_def sender_of_user_A sender_of_sevens signal_P1_def
        signal_P2_def str_val_def)
  note r = signals_both_pending [OF v t d, of 0 1 1001 1000 empty_store, unfolded sv k m]
  note r' = signals_both_pending [OF v t d' tm, of 1000 1000 empty_store, unfolded sv k m]
  show ?thesis
    using v ne r r' by (simp add: sv)
qed

section \<open>Signal, then poll\<close>

lemma glob_star: "glob ''*'' s"
  by (induction s) (simp_all add: glob.simps)

lemma glob_literal_prefix:
  "glob_free q \<Longrightarrow> glob (q @ p) s \<longleftrightarrow> (\<exists>s'. s = q @ s' \<and> glob p s')"
proof (induction q arbitrary: s)
  case Nil
  then show ?case by simp
next
  case (Cons x q)
  then have x: "x \<noteq> CHR ''*''" "x \<noteq> CHR ''?''" "x \<noteq> CHR ''[''" "x \<noteq> CHR 0x5C"
    and q: "glob_free q"
    by (auto simp: glob_free_def)
  show ?case
  proof (cases s)
    case Nil
    then show ?thesis using x by (simp add: glob.simps)
  next
    case (Cons c s0)
    then show ?thesis using x Cons.IH [OF q, of s0] by (auto simp: glob.simps)
  qed
qed

lemma glob_free_append: "glob_free (a @ b) \<longleftrightarrow> glob_free a \<and> glob_free b"
  by (simp add: glob_free_def)

lemma glob_signal_pattern:
  assumes "glob_free B"
  shows "glob (signal_pattern B) k \<longleftrightarrow> (\<exists>rest. k = ''signal:'' @ B @ '':'' @ rest)"
proof -
  have f: "glob_free (''signal:'' @ B @ '':'')"
    using assms by (simp add: glob_free_append) (simp add: glob_free_def)
  have "signal_pattern B = (''signal:'' @ B @ '':'') @ ''*''"
    by (simp add: signal_pattern_def)
  then show ?thesis
    using glob_literal_prefix [OF f, of "''*''" k] by (simp add: glob_star)
qed

lemma set_r_keys:
  "set (r_keys now tb pat) = {k. r_lookup now tb k \<noteq> None \<and> glob pat k}"
proof -
  have "r_lookup now tb k \<noteq> None \<Longrightarrow> k \<in> fst ` set tb" for k
    using map_of_eq_None_iff [of tb k] by (auto simp: r_lookup_def)
  then show ?thesis by (auto simp: r_keys_def)
qed

lemma distinct_r_keys: "distinct (r_keys now tb pat)"
  by (simp add: r_keys_def)

lemma distinct_singleton: "distinct xs \<Longrightarrow> set xs = {k} \<Longrightarrow> xs = [k]"
proof (cases xs)
  case Nil
  then show "set xs = {k} \<Longrightarrow> xs = [k]" by simp
next
  case (Cons x ys)
  assume d: "distinct xs" and e: "set xs = {k}"
  from e Cons have x: "x = k" and sub: "set ys \<subseteq> {k}" by auto
  from d Cons x have "k \<notin> set ys" by simp
  with sub have "ys = []" by (cases ys) auto
  with Cons x show "xs = [k]" by simp
qed

lemma r_lookup_later:
  "now \<le> now' \<Longrightarrow> r_lookup now' tb k = Some v \<Longrightarrow> r_lookup now tb k = Some v"
  by (auto simp: r_lookup_def live_def split: option.splits if_splits)

lemma r_lookup_del:
  "r_lookup now (r_del tb k) k' = (if k' = k then None else r_lookup now tb k')"
  by (simp add: r_del_def r_lookup_delete)

text \<open>
  For a recipient \<open>B\<close> without glob characters, whose mailbox (the live keys that
  \<open>signal_pattern B\<close> matches) is empty: after an accepted signal to \<open>B\<close>, a poll within
  the 30 seconds returns exactly the stored message and deletes its key, and the poll
  after that returns nothing.
\<close>

lemma signal_then_poll:
  assumes v: "valid_signal req" and B: "str_val (sr_to req) = B" and gf: "glob_free B"
    and empty: "r_keys now (signal_tb s) (signal_pattern B) = []"
    and t: "now \<le> now'" "now' < now + 30" "now' \<le> now''"
  shows "poll_signals now' B (snd (signal now ms_key ms_stamp usr req s))
           = (Ok [signal_msg ms_stamp usr req],
              (snd (signal now ms_key ms_stamp usr req s))
                \<lparr>signal_tb := r_del (signal_tb (snd (signal now ms_key ms_stamp usr req s)))
                                  (signal_key B (sender_of usr) ms_key)\<rparr>)
       \<and> fst (poll_signals now'' B
                (snd (poll_signals now' B (snd (signal now ms_key ms_stamp usr req s))))) = Ok []"
proof -
  let ?key = "signal_key B (sender_of usr) ms_key"
  let ?msg = "signal_msg ms_stamp usr req"
  let ?tb1 = "r_setex now (signal_tb s) ?key 30 ?msg"
  let ?s1 = "snd (signal now ms_key ms_stamp usr req s)"
  have s1: "?s1 = s\<lparr>signal_tb := ?tb1\<rparr>"
    using v B by (simp add: signal_valid)
  have Bne: "B \<noteq> []"
    using v B by (auto simp: valid_signal_def truthy_str_def str_val_def split: option.splits)
  have none: "\<not> (r_lookup now (signal_tb s) k \<noteq> None \<and> glob (signal_pattern B) k)" for k
    using empty set_r_keys [of now "signal_tb s" "signal_pattern B"] by auto
  have gk: "glob (signal_pattern B) ?key"
    by (simp add: glob_signal_pattern [OF gf] signal_key_def)
  have "set (r_keys now' ?tb1 (signal_pattern B)) = {?key}"
  proof -
    have "r_lookup now' ?tb1 k \<noteq> None \<and> glob (signal_pattern B) k \<longleftrightarrow> k = ?key" for k
    proof (cases "k = ?key")
      case True
      then show ?thesis using t gk by (simp add: r_lookup_setex)
    next
      case False
      then show ?thesis
        using none [of k] r_lookup_later [OF t(1), of "signal_tb s" k]
        by (auto simp: r_lookup_setex)
    qed
    then show ?thesis by (auto simp: set_r_keys)
  qed
  then have keys1: "r_keys now' ?tb1 (signal_pattern B) = [?key]"
    by (rule distinct_singleton [OF distinct_r_keys])
  have poll1: "poll_signals now' B ?s1 = (Ok [?msg], ?s1\<lparr>signal_tb := r_del ?tb1 ?key\<rparr>)"
    using Bne t
    by (simp add: poll_signals_def s1 keys1 r_get_setex)
  have "set (r_keys now'' (r_del ?tb1 ?key) (signal_pattern B)) = {}"
  proof -
    have "\<not> (r_lookup now'' (r_del ?tb1 ?key) k \<noteq> None \<and> glob (signal_pattern B) k)" for k
      using none [of k] r_lookup_later [of now now'' "signal_tb s" k] t
      by (auto simp: r_lookup_del r_lookup_setex split: if_splits)
    then show ?thesis by (auto simp: set_r_keys)
  qed
  then have keys2: "r_keys now'' (r_del ?tb1 ?key) (signal_pattern B) = []" by simp
  have poll2: "fst (poll_signals now'' B (x\<lparr>signal_tb := r_del ?tb1 ?key\<rparr>)) = Ok []"
    for x :: store
    using Bne by (simp add: poll_signals_def keys2)
  have "fst (poll_signals now'' B (snd (poll_signals now' B ?s1))) = Ok []"
    unfolding poll1 snd_conv by (rule poll2)
  moreover have "signal_tb ?s1 = ?tb1" by (simp add: s1)
  ultimately show ?thesis using poll1 by simp
qed

text \<open>
  C9. The recipient id is spliced into the pattern given to KEYS, where \<open>[x]\<close> is a
  character class: for the recipient \<open>[x]\<close> the pattern \<open>signal:[x]:*\<close> does not match
  the key \<open>signal:[x]:A:1000\<close> the message was stored under. The first poll returns
  nothing and the message stays in the store.
\<close>

theorem poll_misses_bracket_recipient:
  "fst (signal 0 1000 1000 user_A signal_to_bracket empty_store) = Ok ()
   \<and> fst (poll_signals 1 ''[x]'' (snd (signal 0 1000 1000 user_A signal_to_bracket empty_store)))
       = Ok []
   \<and> r_get 1 (signal_tb (snd (poll_signals 1 ''[x]''
                 (snd (signal 0 1000 1000 user_A signal_to_bracket empty_store)))))
        ''signal:[x]:A:1000''
       = Some \<lparr> sig_type = ''offer'', sig_from = SenderName ''A'', sig_to = ''[x]'',
                sig_data = Some ''P'', sig_timestamp = 1000 \<rparr>"
proof -
  have s1: "signal 0 1000 1000 user_A signal_to_bracket empty_store
      = (Ok (), \<lparr> peer_tb = [], set_tb = [],
           signal_tb = [(''signal:[x]:A:1000'',
             \<lparr> sig_type = ''offer'', sig_from = SenderName ''A'', sig_to = ''[x]'',
               sig_data = Some ''P'', sig_timestamp = 1000 \<rparr>, Some 30)] \<rparr>)"
    by (simp add: signal_def Let_def signal_to_bracket_def truthy_str_def str_val_def
        sender_of_user_A signal_key_def sender_str_def show_nat_1000 r_setex_def empty_store_def)
  have g: "\<not> glob (signal_pattern ''[x]'') ''signal:[x]:A:1000''"
    by (simp add: signal_pattern_def glob.simps)
  show ?thesis
    by (simp add: s1 poll_signals_def r_keys_def g r_get_def r_lookup_def live_def)
qed

section \<open>The three families of keys\<close>

text \<open>
  No key of one family is a key of another, and a pattern of \<open>poll_signals\<close> matches
  keys of the \<open>signal:\<close> family only.
\<close>

lemma key_families:
  "PEER_KEY mid pid \<noteq> PEERS_SET_KEY mid'"
  "PEER_KEY mid pid \<noteq> signal_key to from t"
  "PEERS_SET_KEY mid \<noteq> signal_key to from t"
  by (simp_all add: PEER_KEY_def PEERS_SET_KEY_def signal_key_def)

lemma signal_pattern_family:
  assumes "glob (signal_pattern clientId) k"
  shows "\<exists>rest. k = ''signal:'' @ rest"
proof -
  have f: "glob_free ''signal:''" by (simp add: glob_free_def)
  have "signal_pattern clientId = ''signal:'' @ (clientId @ '':*'')"
    by (simp add: signal_pattern_def)
  with assms glob_literal_prefix [OF f, of "clientId @ '':*''" k] show ?thesis by auto
qed

section \<open>Peer selection\<close>

lemma peer_tb_fetch_peers: "peer_tb (snd (fetch_peers now mid pids s)) = peer_tb s"
  by (induction pids arbitrary: s) (auto simp: split_beta split: option.splits)

lemma fetch_peers_sources:
  "d \<in> set (fst (fetch_peers now mid pids s)) \<Longrightarrow>
     \<exists>pid \<in> set pids. r_get now (peer_tb s) (PEER_KEY mid pid) = Some d"
proof (induction pids arbitrary: s)
  case Nil
  then show ?case by simp
next
  case (Cons pid rest)
  show ?case
  proof (cases "r_get now (peer_tb s) (PEER_KEY mid pid)")
    case None
    with Cons.prems have "d \<in> set (fst (fetch_peers now mid rest
        (s\<lparr>set_tb := r_srem now (set_tb s) (PEERS_SET_KEY mid) pid\<rparr>)))"
      by simp
    from Cons.IH [OF this] show ?thesis by auto
  next
    case (Some d')
    with Cons.prems have "d = d' \<or> d \<in> set (fst (fetch_peers now mid rest s))"
      by (auto split: prod.splits)
    then show ?thesis using Some Cons.IH [of s] by auto
  qed
qed

lemma project_scored:
  assumes "p \<in> set peersData"
  shows "\<exists>q \<in> set peersData. peerId q = peerId p \<and>
           project peersData (scorePeer p needed reg)
             = Some \<lparr> pi_peerId = peerId p, pi_chunkBitfield = chunkBitfield q,
                      pi_region = region q, pi_score = score (scorePeer p needed reg) \<rparr>"
proof (cases "find (\<lambda>q. peerId q = peerId p) peersData")
  case None
  with assms show ?thesis by (auto simp: find_None_iff)
next
  case (Some q)
  then have "q \<in> set peersData" "peerId q = peerId p"
    by (auto simp: find_Some_iff)
  with Some show ?thesis by (auto simp: project_def)
qed

lemma those_map_total:
  assumes "\<forall>x \<in> set xs. \<exists>y. f x = Some y \<and> P x y"
  shows "\<exists>ys. those (map f xs) = Some ys \<and> list_all2 P xs ys"
  using assms
proof (induction xs)
  case Nil
  then show ?case by simp
next
  case (Cons x xs)
  then obtain y ys where "f x = Some y" "P x y" "those (map f xs) = Some ys" "list_all2 P xs ys"
    by auto
  then show ?case by simp
qed

lemma sorted_desc_scores:
  "sorted_wrt (\<lambda>a b. score b \<le> score a) (take n (sortPeersByScore scores))"
proof -
  have "sorted (map (\<lambda>sc. - score sc) (sort_key (\<lambda>sc. - score sc) scores))"
    by (rule sorted_sort_key)
  then have "sorted_wrt (\<lambda>a b. score b \<le> score a) (sortPeersByScore scores)"
    by (simp add: sortPeersByScore_def sorted_wrt_map)
  then show ?thesis by (rule sorted_wrt_take)
qed

text \<open>
  A request that passes the validation is answered with at most \<open>MAX_PEERS_RESPONSE\<close>
  peers, in non-increasing order of score, each projected from the record fetched under
  the key of a member that is not excluded.
\<close>

lemma get_peers_result:
  assumes "truthy_str (gp_manifestId req)" "gp_neededChunks req = Some needed"
  shows "\<exists>resp. fst (get_peers cfg now req s) = Ok resp
           \<and> length (peers resp) \<le> MAX_PEERS_RESPONSE cfg
           \<and> count resp = length (peers resp)
           \<and> sorted_wrt (\<ge>) (map pi_score (peers resp))
           \<and> (\<forall>info \<in> set (peers resp).
                \<exists>pid d. pid \<in> set (r_smembers now (set_tb s)
                                      (PEERS_SET_KEY (str_val (gp_manifestId req))))
                  \<and> pid \<notin> set (case gp_excludePeers req of None \<Rightarrow> [] | Some ex \<Rightarrow> ex)
                  \<and> r_get now (peer_tb s) (PEER_KEY (str_val (gp_manifestId req)) pid) = Some d
                  \<and> pi_peerId info = peerId d)"
proof (cases "r_smembers now (set_tb s) (PEERS_SET_KEY (str_val (gp_manifestId req))) = []")
  case True
  then show ?thesis using assms by (simp add: get_peers_def Let_def)
next
  case False
  let ?mid = "str_val (gp_manifestId req)"
  let ?ex = "case gp_excludePeers req of None \<Rightarrow> [] | Some ex \<Rightarrow> ex"
  let ?cands = "filter (\<lambda>pid. pid \<notin> set ?ex) (r_smembers now (set_tb s) (PEERS_SET_KEY ?mid))"
  obtain peersData s' where f: "fetch_peers now ?mid ?cands s = (peersData, s')"
    by (cases "fetch_peers now ?mid ?cands s")
  let ?scores = "map (\<lambda>peer. scorePeer peer needed (gp_region req)) peersData"
  let ?top = "take (MAX_PEERS_RESPONSE cfg) (sortPeersByScore ?scores)"
  let ?P = "\<lambda>sc info. pi_score info = score sc \<and> pi_peerId info = ps_peerId sc"
  have "\<forall>sc \<in> set ?top. \<exists>info. project peersData sc = Some info \<and> ?P sc info"
  proof
    fix sc assume "sc \<in> set ?top"
    then have "sc \<in> set ?scores"
      using set_take_subset [of "MAX_PEERS_RESPONSE cfg" "sortPeersByScore ?scores"]
      by (auto simp: sortPeersByScore_def)
    then obtain p where p: "p \<in> set peersData" "sc = scorePeer p needed (gp_region req)"
      by auto
    from project_scored [OF p(1), of needed "gp_region req"] p(2)
    show "\<exists>info. project peersData sc = Some info \<and> ?P sc info" by auto
  qed
  from those_map_total [OF this] obtain ps
    where ps: "those (map (project peersData) ?top) = Some ps" "list_all2 ?P ?top ps"
    by blast
  have res: "fst (get_peers cfg now req s) = Ok \<lparr> peers = ps, count = length ps \<rparr>"
    using assms False f ps(1) by (simp add: get_peers_def Let_def)
  from ps(2) have "length ?top = length ps" by (rule list_all2_lengthD)
  then have len: "length ps \<le> MAX_PEERS_RESPONSE cfg" by simp
  have scores: "map pi_score ps = map score ?top"
    using ps(2) by (induction rule: list_all2_induct) auto
  have ids: "set (map pi_peerId ps) = set (map ps_peerId ?top)"
    using ps(2) by (induction rule: list_all2_induct) auto
  have "sorted_wrt (\<ge>) (map score ?top)"
    using sorted_desc_scores [of "MAX_PEERS_RESPONSE cfg" ?scores]
    by (simp add: sorted_wrt_map)
  then have srt: "sorted_wrt (\<ge>) (map pi_score ps)" by (simp add: scores)
  have src: "\<exists>pid d. pid \<in> set (r_smembers now (set_tb s) (PEERS_SET_KEY ?mid))
                  \<and> pid \<notin> set ?ex
                  \<and> r_get now (peer_tb s) (PEER_KEY ?mid pid) = Some d
                  \<and> pi_peerId info = peerId d" if "info \<in> set ps" for info
  proof -
    from that have "pi_peerId info \<in> set (map ps_peerId ?top)" using ids by auto
    then obtain sc where "sc \<in> set ?top" "pi_peerId info = ps_peerId sc" by auto
    then have "sc \<in> set ?scores"
      using set_take_subset [of "MAX_PEERS_RESPONSE cfg" "sortPeersByScore ?scores"]
      by (auto simp: sortPeersByScore_def)
    then obtain d where d: "d \<in> set peersData" "sc = scorePeer d needed (gp_region req)"
      by auto
    from d(1) f have "d \<in> set (fst (fetch_peers now ?mid ?cands s))" by simp
    from fetch_peers_sources [OF this] obtain pid
      where "pid \<in> set ?cands" "r_get now (peer_tb s) (PEER_KEY ?mid pid) = Some d"
      by blast
    then show ?thesis using d(2) \<open>pi_peerId info = ps_peerId sc\<close> by auto
  qed
  show ?thesis
    using res len srt src by auto
qed

text \<open>
  Where every record under a key of the manifest carries the member id of that key, no
  returned \<open>peerId\<close> is in the exclusion list.
\<close>

lemma get_peers_excludes:
  assumes "truthy_str (gp_manifestId req)" "gp_neededChunks req = Some needed"
    and "records_match_keys now (str_val (gp_manifestId req)) s"
    and "fst (get_peers cfg now req s) = Ok resp" "info \<in> set (peers resp)"
    and "gp_excludePeers req = Some ex"
  shows "pi_peerId info \<notin> set ex"
proof -
  from get_peers_result [OF assms(1,2), of cfg now s] assms(4,5,6)
  obtain pid d where "pid \<notin> set ex"
    "r_get now (peer_tb s) (PEER_KEY (str_val (gp_manifestId req)) pid) = Some d"
    "pi_peerId info = peerId d"
    by fastforce
  with assms(3) show ?thesis by (auto simp: records_match_keys_def)
qed

section \<open>Exclusion on stores built from colon-free manifests\<close>

lemma split_at_first_colon:
  assumes "colon_free a" "colon_free b" "a @ CHR '':'' # x = b @ CHR '':'' # y"
  shows "a = b \<and> x = y"
  using assms
proof (induction a arbitrary: b)
  case Nil
  then show ?case by (cases b) (auto simp: colon_free_def)
next
  case (Cons c a)
  then show ?case by (cases b) (auto simp: colon_free_def)
qed

lemma PEER_KEY_inj:
  "colon_free m1 \<Longrightarrow> colon_free m2 \<Longrightarrow> PEER_KEY m1 p1 = PEER_KEY m2 p2 \<Longrightarrow> m1 = m2 \<and> p1 = p2"
  using split_at_first_colon [of m1 m2 p1 p2] by (simp add: PEER_KEY_def)

lemma r_get_map_of: "r_get now tb k = Some d \<Longrightarrow> \<exists>e. map_of tb k = Some (d, e)"
  by (auto simp: r_get_def r_lookup_def split: option.splits if_splits)

lemma peer_tb_get_peers: "peer_tb (snd (get_peers cfg now req s)) = peer_tb s"
proof -
  have "peer_tb (snd (case fetch_peers now mid pids s of (peersData, s') \<Rightarrow> f peersData s')) = peer_tb s"
    if "\<And>ds s'. peer_tb (snd (f ds s')) = peer_tb s'" for mid pids and f :: "PeerData list \<Rightarrow> store \<Rightarrow> GetPeersResponse response \<times> store"
    using that peer_tb_fetch_peers [of now mid pids s]
    by (cases "fetch_peers now mid pids s") simp
  then show ?thesis
    by (simp add: get_peers_def Let_def split: option.splits)
qed

lemma peer_tb_signal: "peer_tb (snd (signal now ms_key ms_stamp usr req s)) = peer_tb s"
  by (simp add: signal_def Let_def)

lemma peer_tb_poll_signals: "peer_tb (snd (poll_signals now clientId s)) = peer_tb s"
  by (simp add: poll_signals_def Let_def split_beta)

lemma keys_name_records_announce:
  assumes "keys_name_records s" "colon_free (str_val (ar_manifestId req))"
  shows "keys_name_records (snd (announce cfg now ms req s))"
  using assms
  by (auto simp: keys_name_records_def announce_def Let_def r_setex_def update_conv'
      split: if_splits)

lemma keys_name_records_complete:
  assumes "keys_name_records s"
  shows "keys_name_records (snd (complete cfg now ms req s))"
proof -
  have "keys_name_records (s\<lparr>peer_tb := r_setex now (peer_tb s) k ttl
          (d\<lparr>isComplete := True, lastSeen := ms\<rparr>)\<rparr>)"
    if "r_get now (peer_tb s) k = Some d" for k d ttl
  proof -
    from r_get_map_of [OF that] obtain e where "map_of (peer_tb s) k = Some (d, e)" ..
    with assms have "colon_free (manifestId d)" "k = PEER_KEY (manifestId d) (peerId d)"
      by (auto simp: keys_name_records_def)
    with assms show ?thesis
      by (auto simp: keys_name_records_def r_setex_def update_conv' split: if_splits)
  qed
  with assms show ?thesis
    by (auto simp: complete_def Let_def split: option.splits)
qed

lemma reachable_keys_name_records: "reachable cfg s \<Longrightarrow> keys_name_records s"
proof (induction rule: reachable.induct)
  case r_empty
  then show ?case by (simp add: keys_name_records_def empty_store_def)
next
  case (r_announce s areq now ms)
  then show ?case by (simp add: keys_name_records_announce)
next
  case (r_get_peers s now greq)
  then show ?case by (simp add: keys_name_records_def peer_tb_get_peers)
next
  case (r_complete s now ms creq)
  then show ?case by (simp add: keys_name_records_complete)
next
  case (r_signal s now ms_key ms_stamp usr sreq)
  then show ?case by (simp add: keys_name_records_def peer_tb_signal)
next
  case (r_poll s now clientId)
  then show ?case by (simp add: keys_name_records_def peer_tb_poll_signals)
qed

lemma reachable_records_match_keys:
  assumes "reachable cfg s" "colon_free mid"
  shows "records_match_keys now mid s"
  unfolding records_match_keys_def
proof (intro allI impI)
  fix pid d
  assume "r_get now (peer_tb s) (PEER_KEY mid pid) = Some d"
  from r_get_map_of [OF this] obtain e where "map_of (peer_tb s) (PEER_KEY mid pid) = Some (d, e)" ..
  with reachable_keys_name_records [OF assms(1)]
  have "colon_free (manifestId d)" "PEER_KEY mid pid = PEER_KEY (manifestId d) (peerId d)"
    by (auto simp: keys_name_records_def)
  with PEER_KEY_inj [OF assms(2), of "manifestId d" pid "peerId d"]
  show "peerId d = pid" by simp
qed

text \<open>
  On such a store, a request for the peers of a manifest without a colon never returns
  an excluded \<open>peerId\<close>.
\<close>

lemma get_peers_excludes_reachable:
  assumes "reachable cfg s" "colon_free (str_val (gp_manifestId req))"
    and "truthy_str (gp_manifestId req)" "gp_neededChunks req = Some needed"
    and "fst (get_peers cfg now req s) = Ok resp" "info \<in> set (peers resp)"
    and "gp_excludePeers req = Some ex"
  shows "pi_peerId info \<notin> set ex"
  using get_peers_excludes [OF assms(3,4) reachable_records_match_keys [OF assms(1,2)] assms(5,6,7)] .

section \<open>Two pairs under one key\<close>

lemma store_aliased_eq:
  "store_aliased =
     \<lparr> peer_tb = [(''peer:a:b:c'',
         \<lparr> peerId = ''b:c'', manifestId = ''a'', chunkBitfield = ''ff'', upCap = 0,
           region = None, rttHint = None, version = None, lastSeen = 1001,
           isComplete = False \<rparr>, Some 300)],
       set_tb = [(''peers:a:b'', [''c''], Some 300), (''peers:a'', [''b:c''], Some 300)],
       signal_tb = [] \<rparr>"
  by (simp add: store_aliased_def announce_def Let_def announce_c_def announce_bc_def
      truthy_str_def str_val_def default_config_def empty_store_def PEER_KEY_def
      PEERS_SET_KEY_def r_setex_def r_sadd_def r_lookup_def r_ttl_def r_expire_def num_or_def
      live_def)

lemma hasNeededChunks_ff_0: "hasNeededChunks ''ff'' [0]"
  by (simp add: hasNeededChunks_def hasBit_iff unhex_def)

text \<open>
  C3. The exclusion list is applied to the member ids, but the \<open>peerId\<close> returned is the
  one inside the record fetched under \<open>peer:<manifest>:<member>\<close>, and that key does not
  determine the pair: after peer \<open>c\<close> announces for manifest \<open>a:b\<close> and peer \<open>b:c\<close> for
  manifest \<open>a\<close>, the key \<open>peer:a:b:c\<close> holds the record of \<open>b:c\<close>, and the peers of
  \<open>a:b\<close> with \<open>b:c\<close> excluded come back as \<open>b:c\<close>.
\<close>

theorem get_peers_returns_excluded:
  "gp_excludePeers peers_excluding_bc = Some [''b:c'']
   \<and> fst (get_peers default_config 5 peers_excluding_bc store_aliased)
       = Ok \<lparr> peers = [\<lparr> pi_peerId = ''b:c'', pi_chunkBitfield = ''ff'', pi_region = None,
                         pi_score = 105 \<rparr>],
              count = 1 \<rparr>"
proof -
  let ?d = "\<lparr> peerId = ''b:c'', manifestId = ''a'', chunkBitfield = ''ff'', upCap = 0,
           region = None, rttHint = None, version = None, lastSeen = 1001,
           isComplete = False \<rparr>"
  have m: "r_smembers 5 (set_tb store_aliased) (PEERS_SET_KEY ''a:b'') = [''c'']"
    by (simp add: store_aliased_eq r_smembers_def r_lookup_def live_def PEERS_SET_KEY_def)
  have g: "r_get 5 (peer_tb store_aliased) (PEER_KEY ''a:b'' ''c'') = Some ?d"
    by (simp add: store_aliased_eq r_get_def r_lookup_def live_def PEER_KEY_def)
  have sc: "scorePeer ?d [0] None
      = \<lparr> ps_peerId = ''b:c'', score = 105,
          factors = [(''hasNeeded'', 100), (''region'', 0), (''latency'', 5),
                     (''capacity'', 0), (''completion'', 0)],
          hasNeeded = True \<rparr>"
    by (simp add: scorePeer_def Let_def hasNeededChunks_ff_0 regionScore_def truthy_str_def
        calculateLatencyScore_def num_or_def capacityScore_def)
  show ?thesis
    by (simp add: get_peers_def Let_def peers_excluding_bc_def truthy_str_def str_val_def m g sc
        sortPeersByScore_def default_config_def project_def)
qed

section \<open>The end-to-end scenarios on ordinary ids\<close>

text \<open>An offer from \<open>A\<close> to \<open>B\<close> is delivered by the first poll and gone at the second.\<close>

lemma signal_then_poll_example:
  "poll_signals 5 ''B'' (snd (signal 0 1000 1000 user_A signal_offer_B empty_store))
     = (Ok [\<lparr> sig_type = ''offer'', sig_from = SenderName ''A'', sig_to = ''B'',
               sig_data = Some ''P'', sig_timestamp = 1000 \<rparr>], empty_store)
   \<and> fst (poll_signals 5 ''B''
            (snd (poll_signals 5 ''B''
                    (snd (signal 0 1000 1000 user_A signal_offer_B empty_store))))) = Ok []"
proof -
  let ?msg = "\<lparr> sig_type = ''offer'', sig_from = SenderName ''A'', sig_to = ''B'',
          sig_data = Some ''P'', sig_timestamp = 1000 \<rparr>"
  have v: "valid_signal signal_offer_B"
    by (simp add: valid_signal_def signal_offer_B_def truthy_str_def str_val_def)
  have b: "str_val (sr_to signal_offer_B) = ''B''"
    by (simp add: signal_offer_B_def str_val_def)
  have g: "glob_free ''B''" by (simp add: glob_free_def)
  have e: "r_keys 0 (signal_tb empty_store) (signal_pattern ''B'') = []"
    by (simp add: r_keys_def empty_store_def)
  have m: "signal_msg 1000 user_A signal_offer_B = ?msg"
    by (simp add: signal_msg_def sender_of_user_A signal_offer_B_def str_val_def)
  have s1: "snd (signal 0 1000 1000 user_A signal_offer_B empty_store)
      = empty_store\<lparr>signal_tb := [(''signal:B:A:1000'', ?msg, Some 30)]\<rparr>"
    by (simp add: signal_valid [OF v] b m sender_of_user_A signal_key_B_A_1000 r_setex_def
        empty_store_def)
  have d: "r_del [(''signal:B:A:1000'', ?msg, Some 30)] ''signal:B:A:1000'' = []"
    by (simp add: r_del_def)
  have k: "signal_key ''B'' (sender_of user_A) 1000 = ''signal:B:A:1000''"
    by (simp add: sender_of_user_A signal_key_B_A_1000)
  have z: "empty_store\<lparr>signal_tb := []\<rparr> = empty_store" by (simp add: empty_store_def)
  have t: "(0::nat) \<le> 5" "(5::nat) < 0 + 30" "(5::nat) \<le> 5" by simp_all
  note r = signal_then_poll [OF v b g e t, of 1000 1000 user_A, unfolded m k s1]
  let ?s1 = "empty_store\<lparr>signal_tb := [(''signal:B:A:1000'', ?msg, Some 30)]\<rparr>"
  have r1: "poll_signals 5 ''B'' ?s1 = (Ok [?msg], empty_store)"
    using conjunct1 [OF r] by (simp add: d z)
  have r2: "fst (poll_signals 5 ''B'' (snd (poll_signals 5 ''B'' ?s1))) = Ok []"
    by (rule conjunct2 [OF r])
  show ?thesis
    unfolding s1 by (rule conjI [OF r1 r2])
qed

text \<open>
  The peer \<open>A\<close> of manifest \<open>M\<close>, holding chunk 3, is returned for the needed chunk 3
  with the score 162.
\<close>

lemma get_peers_example:
  "records_match_keys 5 ''M'' store1
   \<and> fst (get_peers default_config 5 peers_of_M store1)
       = Ok \<lparr> peers = [\<lparr> pi_peerId = ''A'', pi_chunkBitfield = ''08'', pi_region = Some ''eu'',
                         pi_score = 162 \<rparr>],
              count = 1 \<rparr>"
proof -
  have r: "records_match_keys 5 ''M'' store1"
    by (auto simp: records_match_keys_def store1_def r_get_def r_lookup_def PEER_KEY_def
        peer0_def split: if_splits)
  have m: "r_smembers 5 (set_tb store1) (PEERS_SET_KEY ''M'') = [''A'']"
    by (simp add: store1_def r_smembers_def r_lookup_def live_def PEERS_SET_KEY_def)
  have g: "r_get 5 (peer_tb store1) (PEER_KEY ''M'' ''A'') = Some peer0"
    by (simp add: store1_def r_get_def r_lookup_def live_def PEER_KEY_def)
  have sc: "score (scorePeer peer0 [3] (Some ''eu'')) = 162"
    by (simp add: peer0_def score_scorePeer regionScore_def truthy_str_def
      calculateLatencyScore_def num_or_def capacityScore_def hasNeededChunks_def
      hasBit_iff unhex_def)
  have f: "find (\<lambda>p. peerId p = peerId peer0) [peer0] = Some peer0" by simp
  have p: "peerId peer0 = ''A''" "chunkBitfield peer0 = ''08''" "region peer0 = Some ''eu''"
    by (simp_all add: peer0_def)
  show ?thesis
    using r
    by (simp add: get_peers_def Let_def peers_of_M_def truthy_str_def str_val_def m g
        sortPeersByScore_def default_config_def project_def f sc p)
qed

end
